theory Spec2Isabelle
  imports Complex_Main
begin

section \<open>JavaScript values and primitives\<close>

text \<open>
  The handlers read untyped JSON bodies and query strings, test presence by truthiness
  and convert with \<^verbatim>\<open>parseFloat\<close> and \<^verbatim>\<open>parseInt\<close>. A JSON value is modelled by
  \<open>js_value\<close>. Numbers are exact rationals: the rounding of IEEE doubles, the
  non-finite values \<^verbatim>\<open>Infinity\<close> and the range of the \<^verbatim>\<open>DECIMAL\<close> columns are outside the
  model. \<^verbatim>\<open>NaN\<close> is the value \<open>None\<close> of an optional number.
\<close>

datatype js_value = Undefined | Null | JBool bool | JNum rat | JStr string

fun truthy :: "js_value \<Rightarrow> bool" where
  "truthy Undefined = False"
| "truthy Null = False"
| "truthy (JBool b) = b"
| "truthy (JNum r) = (r \<noteq> 0)"
| "truthy (JStr s) = (s \<noteq> [])"

definition is_digit :: "char \<Rightarrow> bool" where
  "is_digit c = (48 \<le> (of_char c :: nat) \<and> (of_char c :: nat) \<le> 57)"

definition digit_val :: "char \<Rightarrow> nat" where
  "digit_val c = of_char c - 48"

definition digits_val :: "string \<Rightarrow> nat" where
  "digits_val s = foldl (\<lambda>n c. 10 * n + digit_val c) 0 s"

definition is_space :: "char \<Rightarrow> bool" where
  "is_space c = ((of_char c :: nat) \<in> {9, 10, 11, 12, 13, 32})"

text \<open>The optional exponent part of a decimal literal, as a factor.\<close>

definition exponent_part :: "string \<Rightarrow> rat" where
  "exponent_part s =
     (case s of
        [] \<Rightarrow> 1
      | c # t \<Rightarrow>
          if c = CHR ''e'' \<or> c = CHR ''E'' then
            (case t of
               [] \<Rightarrow> 1
             | d # u \<Rightarrow>
                 if d = CHR ''-'' then
                   (if takeWhile is_digit u = [] then 1
                    else 1 / 10 ^ digits_val (takeWhile is_digit u))
                 else if d = CHR ''+'' then
                   (if takeWhile is_digit u = [] then 1
                    else 10 ^ digits_val (takeWhile is_digit u))
                 else
                   (if takeWhile is_digit t = [] then 1
                    else 10 ^ digits_val (takeWhile is_digit t)))
          else 1)"

text \<open>The longest prefix that is an unsigned decimal literal; \<open>None\<close> when there is none.\<close>

definition str_decimal :: "string \<Rightarrow> rat option" where
  "str_decimal s =
     (let ip = takeWhile is_digit s;
          r1 = dropWhile is_digit s;
          dotted = (r1 \<noteq> [] \<and> hd r1 = CHR ''.'');
          fp = (if dotted then takeWhile is_digit (tl r1) else []);
          r2 = (if dotted then dropWhile is_digit (tl r1) else r1)
      in if ip = [] \<and> fp = [] then None
         else Some ((of_nat (digits_val ip) + of_nat (digits_val fp) / 10 ^ length fp)
                    * exponent_part r2))"

definition parse_float_str :: "string \<Rightarrow> rat option" where
  "parse_float_str s =
     (case dropWhile is_space s of
        [] \<Rightarrow> None
      | c # t \<Rightarrow>
          if c = CHR ''-'' then map_option uminus (str_decimal t)
          else if c = CHR ''+'' then str_decimal t
          else str_decimal (c # t))"

text \<open>
  \<^verbatim>\<open>parseFloat(v)\<close>: the argument is converted to a string first, so a number parses to
  itself and \<^verbatim>\<open>undefined\<close>, \<^verbatim>\<open>null\<close>, \<^verbatim>\<open>true\<close> and \<^verbatim>\<open>false\<close> give \<^verbatim>\<open>NaN\<close>.
\<close>

fun parseFloat :: "js_value \<Rightarrow> rat option" where
  "parseFloat (JStr s) = parse_float_str s"
| "parseFloat (JNum r) = Some r"
| "parseFloat _ = None"

definition is_hex_digit :: "char \<Rightarrow> bool" where
  "is_hex_digit c =
     (is_digit c \<or> (65 \<le> (of_char c :: nat) \<and> (of_char c :: nat) \<le> 70)
                \<or> (97 \<le> (of_char c :: nat) \<and> (of_char c :: nat) \<le> 102))"

definition hex_val :: "char \<Rightarrow> nat" where
  "hex_val c =
     (if is_digit c then of_char c - 48
      else if (of_char c :: nat) \<le> 70 then of_char c - 55
      else of_char c - 87)"

definition hex_digits_val :: "string \<Rightarrow> nat" where
  "hex_digits_val s = foldl (\<lambda>n c. 16 * n + hex_val c) 0 s"

text \<open>The unsigned integer prefix read by \<^verbatim>\<open>parseInt\<close> with no radix argument.\<close>

definition str_integer :: "string \<Rightarrow> int option" where
  "str_integer s =
     (if take 2 s = ''0x'' \<or> take 2 s = ''0X'' then
        (if takeWhile is_hex_digit (drop 2 s) = [] then None
         else Some (int (hex_digits_val (takeWhile is_hex_digit (drop 2 s)))))
      else if takeWhile is_digit s = [] then None
      else Some (int (digits_val (takeWhile is_digit s))))"

definition parse_int_str :: "string \<Rightarrow> int option" where
  "parse_int_str s =
     (case dropWhile is_space s of
        [] \<Rightarrow> None
      | c # t \<Rightarrow>
          if c = CHR ''-'' then map_option uminus (str_integer t)
          else if c = CHR ''+'' then str_integer t
          else str_integer (c # t))"

text \<open>
  \<^verbatim>\<open>parseInt(v)\<close>. On a number the digits before the decimal point are read, which is
  truncation towards zero for every number whose decimal string has no exponent
  (magnitude from \<open>10\<^sup>-\<^sup>6\<close> up to \<open>10\<^sup>2\<^sup>1\<close>, and zero); numbers printed with an exponent
  are not modelled apart.
\<close>

fun parseInt :: "js_value \<Rightarrow> int option" where
  "parseInt (JStr s) = parse_int_str s"
| "parseInt (JNum r) = Some (if 0 \<le> r then \<lfloor>r\<rfloor> else \<lceil>r\<rceil>)"
| "parseInt _ = None"

text \<open>\<^verbatim>\<open>Math.round\<close>: the nearest integer, a tie going up.\<close>

definition Math_round :: "rat \<Rightarrow> int" where
  "Math_round x = \<lfloor>x + 1 / 2\<rfloor>"


section \<open>Data model\<close>

text \<open>
  The tables of the persistent store, one record per row. Identifiers are the strings the
  handlers compare (UUIDs in the deployment). A nullable column is an \<open>option\<close>.
\<close>

datatype request_status = pending | accepted | in_progress | completed | cancelled

datatype verification = under_review | approved | rejected

datatype tx_type = commission_deduction | withdrawal | top_up | credit

datatype withdrawal_status = wd_pending | wd_completed | wd_failed

record user =
  u_id :: string
  full_name :: string
  profile_picture_url :: "string option"
  location_lat :: "rat option"
  location_lng :: "rat option"

record customer_vehicle =
  cv_id :: string
  cv_customer_id :: string

record mechanic_profile =
  mp_id :: string
  mp_user_id :: string
  verification_status :: verification
  is_available :: bool
  rating :: "rat option"
  total_jobs :: "nat option"
  wallet_balance :: "rat option"
  profile_photo_url :: "string option"

record mechanic_specialization =
  ms_mechanic_id :: string
  specialization :: string

record service_request =
  sr_id :: string
  customer_id :: string
  mechanic_id :: string
  vehicle_id :: string
  category_id :: string
  problem_description :: string
  customer_location_lat :: "rat option"
  customer_location_lng :: "rat option"
  customer_location_address :: "string option"
  status :: request_status
  material_cost :: "rat option"
  labor_cost :: "rat option"
  total_cost :: "rat option"
  customer_rating :: "int option"
  customer_review :: "string option"
  mechanic_confirmed :: bool
  customer_confirmed :: bool
  arrived_at :: "string option"
  completed_at :: "string option"

record wallet_transaction =
  wt_user_id :: string
  amount :: rat
  transaction_type :: tx_type
  description :: string
  reference_id :: "string option"
  reference_type :: "string option"
  wt_status :: "withdrawal_status option"
  bank_details :: "string option"

record notification =
  n_user_id :: string
  title :: string
  body :: string
  n_type :: string
  n_reference_id :: string

record db =
  users :: "user list"
  customer_vehicles :: "customer_vehicle list"
  mechanic_profiles :: "mechanic_profile list"
  mechanic_specializations :: "mechanic_specialization list"
  service_requests :: "service_request list"
  wallet_transactions :: "wallet_transaction list"
  notifications :: "notification list"

section \<open>The persistence layer\<close>

text \<open>
  Every call of the store client returns a pair of data and error and never throws. The
  environment of one handler run says which calls report an error (\<open>fails\<close>), and gives
  the clock reading and the identifier the store generates for an inserted request.
\<close>

datatype db_call =
    SelectRequest | InsertRequest | UpdateRequest
  | SelectProfile | UpdateBalance | RollbackBalance | UpdateRating | UpdateAvailability
  | SelectTransaction | InsertTransaction
  | SelectRatings | SelectVehicle | InsertNotification | UpdateLocation
  | SelectMechanics | SelectSpecializations

record env =
  fails :: "db_call \<Rightarrow> bool"
  now :: string
  new_id :: string

datatype error = CustomError string nat

text \<open>\<^verbatim>\<open>.single()\<close>: the row when the query matches exactly one, otherwise no data.\<close>

definition single :: "'a list \<Rightarrow> 'a option" where
  "single rows = (case rows of [r] \<Rightarrow> Some r | _ \<Rightarrow> None)"

definition select_single :: "env \<Rightarrow> db_call \<Rightarrow> 'a list \<Rightarrow> 'a option" where
  "select_single e c rows = (if fails e c then None else single rows)"

definition request_by_id :: "string \<Rightarrow> db \<Rightarrow> service_request list" where
  "request_by_id rid d = filter (\<lambda>r. sr_id r = rid) (service_requests d)"

definition profile_by_user :: "string \<Rightarrow> db \<Rightarrow> mechanic_profile list" where
  "profile_by_user uid d = filter (\<lambda>p. mp_user_id p = uid) (mechanic_profiles d)"

definition update_request :: "string \<Rightarrow> (service_request \<Rightarrow> service_request) \<Rightarrow> db \<Rightarrow> db" where
  "update_request rid f d =
     d\<lparr>service_requests := map (\<lambda>r. if sr_id r = rid then f r else r) (service_requests d)\<rparr>"

definition update_profile :: "string \<Rightarrow> (mechanic_profile \<Rightarrow> mechanic_profile) \<Rightarrow> db \<Rightarrow> db" where
  "update_profile uid f d =
     d\<lparr>mechanic_profiles := map (\<lambda>p. if mp_user_id p = uid then f p else p) (mechanic_profiles d)\<rparr>"

text \<open>Inserts whose error the handlers do not look at.\<close>

definition insert_notification :: "env \<Rightarrow> notification \<Rightarrow> db \<Rightarrow> db" where
  "insert_notification e n d =
     (if fails e InsertNotification then d else d\<lparr>notifications := notifications d @ [n]\<rparr>)"

definition insert_transaction :: "env \<Rightarrow> wallet_transaction \<Rightarrow> db \<Rightarrow> db" where
  "insert_transaction e t d =
     (if fails e InsertTransaction then d
      else d\<lparr>wallet_transactions := wallet_transactions d @ [t]\<rparr>)"

text \<open>\<^verbatim>\<open>x || 0\<close> on a nullable number, and \<^verbatim>\<open>s || null\<close> on an optional string.\<close>

definition or_zero :: "'a::zero option \<Rightarrow> 'a" where
  "or_zero x = (case x of None \<Rightarrow> 0 | Some v \<Rightarrow> v)"

definition or_null :: "string option \<Rightarrow> string option" where
  "or_null s = (case s of None \<Rightarrow> None | Some v \<Rightarrow> if v = [] then None else Some v)"

text \<open>\<^verbatim>\<open>!s\<close> on an optional string: absent or empty.\<close>

definition missing :: "string option \<Rightarrow> bool" where
  "missing s = (s = None \<or> s = Some [])"


section \<open>Settlement ledger and rating aggregator\<close>

text \<open>
  The commission block that both completion handlers run once the request has been written
  as completed: look for the commission row of this request, and when the lookup gives no
  row, credit the provider with the labour cost less 15 percent and log the commission.
  Neither write is checked for an error.
\<close>

definition commission_rows :: "string \<Rightarrow> db \<Rightarrow> wallet_transaction list" where
  "commission_rows rid d =
     filter (\<lambda>t. reference_id t = Some rid
                 \<and> reference_type t = Some ''service_request''
                 \<and> transaction_type t = commission_deduction)
            (wallet_transactions d)"

definition process_commission :: "env \<Rightarrow> string \<Rightarrow> string \<Rightarrow> rat \<Rightarrow> db \<Rightarrow> db" where
  "process_commission e rid uid laborCost d =
     (case select_single e SelectTransaction (commission_rows rid d) of
        Some existingTransaction \<Rightarrow> d
      | None \<Rightarrow>
          let commission = laborCost * (15 / 100);
              mechanicEarnings = laborCost - commission
          in (case select_single e SelectProfile (profile_by_user uid d) of
                None \<Rightarrow> d
              | Some mechanicProfile \<Rightarrow>
                  let currentBalance = or_zero (wallet_balance mechanicProfile);
                      newBalance = currentBalance + mechanicEarnings;
                      d1 = (if fails e UpdateBalance then d
                            else update_profile uid (\<lambda>p. p\<lparr>wallet_balance := Some newBalance\<rparr>) d)
                  in insert_transaction e
                       \<lparr>wt_user_id = uid,
                        amount = - commission,
                        transaction_type = commission_deduction,
                        description = ''Commission deduction (15%) for service request '' @ rid,
                        reference_id = Some rid,
                        reference_type = Some ''service_request'',
                        wt_status = None,
                        bank_details = None\<rparr>
                       d1))"

text \<open>
  The recomputation of the provider's average rating at the end of the customer's
  completion call: every request of the provider that carries a rating counts.
\<close>

definition update_average_rating :: "env \<Rightarrow> string \<Rightarrow> db \<Rightarrow> db" where
  "update_average_rating e uid d =
     (if fails e SelectRatings then d
      else
        let allRatings = filter (\<lambda>r. mechanic_id r = uid \<and> customer_rating r \<noteq> None)
                                (service_requests d)
        in if length allRatings > 0 then
             let totalRating = foldl (\<lambda>sum r. sum + or_zero (customer_rating r)) 0 allRatings;
                 averageRating = (of_int totalRating :: rat) / of_nat (length allRatings)
             in if fails e UpdateRating then d
                else update_profile uid
                       (\<lambda>p. p\<lparr>rating := Some (of_int (Math_round (averageRating * 10)) / 10)\<rparr>) d
           else d)"

section \<open>Request state machine: the customer's handlers\<close>

text \<open>
  The two parts of the update object of a completion call: the customer's prices, rating
  and confirmation flag, and the status and completion time added once the other party
  has confirmed.
\<close>

definition customer_confirmation ::
  "rat \<Rightarrow> rat \<Rightarrow> int \<Rightarrow> string option \<Rightarrow> service_request \<Rightarrow> service_request" where
  "customer_confirmation materialCost laborCost customerRating review r =
     r\<lparr>material_cost := Some materialCost,
       labor_cost := Some laborCost,
       total_cost := Some (materialCost + laborCost),
       customer_rating := Some customerRating,
       customer_review := or_null review,
       customer_confirmed := True\<rparr>"

definition finalized :: "string \<Rightarrow> service_request \<Rightarrow> service_request" where
  "finalized t r = r\<lparr>status := completed, completed_at := Some t\<rparr>"

record location =
  loc_lat :: "rat option"
  loc_lng :: "rat option"
  loc_address :: "string option"

record create_body =
  body_mechanic_id :: "string option"
  body_vehicle_id :: "string option"
  body_category_id :: "string option"
  body_problem_description :: "string option"
  body_location :: "location option"

definition createServiceRequest ::
  "env \<Rightarrow> string option \<Rightarrow> create_body \<Rightarrow> db \<Rightarrow> (error + service_request) \<times> db" where
  "createServiceRequest e user b d =
     (case user of
        None \<Rightarrow> (Inl (CustomError ''Unauthorized'' 401), d)
      | Some customer \<Rightarrow>
        if customer = [] then (Inl (CustomError ''Unauthorized'' 401), d)
        else
        (case (body_mechanic_id b, body_vehicle_id b, body_category_id b,
               body_problem_description b, body_location b) of
           (Some mechanic, Some vehicle, Some category, Some problem, Some loc) \<Rightarrow>
             if mechanic = [] \<or> vehicle = [] \<or> category = [] \<or> problem = [] then
               (Inl (CustomError ''Missing required fields'' 400), d)
             else
             (case select_single e SelectProfile (profile_by_user mechanic d) of
                None \<Rightarrow> (Inl (CustomError ''Mechanic not found'' 404), d)
              | Some mechanicProfile \<Rightarrow>
                if verification_status mechanicProfile \<noteq> approved then
                  (Inl (CustomError ''Mechanic is not verified'' 400), d)
                else if \<not> is_available mechanicProfile then
                  (Inl (CustomError ''Mechanic is not available'' 400), d)
                else
                (case select_single e SelectVehicle
                        (filter (\<lambda>v. cv_id v = vehicle \<and> cv_customer_id v = customer)
                                (customer_vehicles d)) of
                   None \<Rightarrow> (Inl (CustomError ''Vehicle not found'' 404), d)
                 | Some v \<Rightarrow>
                   if fails e InsertRequest \<or> new_id e \<in> sr_id ` set (service_requests d) then
                     (Inl (CustomError ''Failed to create service request'' 500), d)
                   else
                     let serviceRequest =
                           \<lparr>sr_id = new_id e,
                            customer_id = customer,
                            mechanic_id = mechanic,
                            vehicle_id = vehicle,
                            category_id = category,
                            problem_description = problem,
                            customer_location_lat = loc_lat loc,
                            customer_location_lng = loc_lng loc,
                            customer_location_address = or_null (loc_address loc),
                            status = pending,
                            material_cost = None,
                            labor_cost = None,
                            total_cost = None,
                            customer_rating = None,
                            customer_review = None,
                            mechanic_confirmed = False,
                            customer_confirmed = False,
                            arrived_at = None,
                            completed_at = None\<rparr>;
                         d1 = d\<lparr>service_requests := service_requests d @ [serviceRequest]\<rparr>;
                         d2 = insert_notification e
                                \<lparr>n_user_id = mechanic,
                                 title = ''New Service Request'',
                                 body = ''You have a new service request from a customer'',
                                 n_type = ''service_request'',
                                 n_reference_id = new_id e\<rparr> d1
                     in (Inr serviceRequest, d2)))
         | _ \<Rightarrow> (Inl (CustomError ''Missing required fields'' 400), d)))"

definition cancelServiceRequest ::
  "env \<Rightarrow> string option \<Rightarrow> string \<Rightarrow> db \<Rightarrow> (error + service_request option) \<times> db" where
  "cancelServiceRequest e user rid d =
     (case user of
        None \<Rightarrow> (Inl (CustomError ''Unauthorized'' 401), d)
      | Some userId \<Rightarrow>
        if userId = [] then (Inl (CustomError ''Unauthorized'' 401), d)
        else
        (case select_single e SelectRequest (request_by_id rid d) of
           None \<Rightarrow> (Inl (CustomError ''Service request not found'' 404), d)
         | Some serviceRequest \<Rightarrow>
           if customer_id serviceRequest \<noteq> userId then
             (Inl (CustomError ''Only the customer can cancel this request'' 403), d)
           else if status serviceRequest \<noteq> pending \<and> status serviceRequest \<noteq> accepted then
             (Inl (CustomError ''Cannot cancel request in current status'' 400), d)
           else if fails e UpdateRequest then
             (Inl (CustomError ''Failed to cancel service request'' 500), d)
           else
             let d1 = update_request rid (\<lambda>r. r\<lparr>status := cancelled\<rparr>) d;
                 updatedRequest = single (request_by_id rid d1);
                 d2 = insert_notification e
                        \<lparr>n_user_id = mechanic_id serviceRequest,
                         title = ''Service Request Cancelled'',
                         body = ''A service request has been cancelled by the customer'',
                         n_type = ''service_request'',
                         n_reference_id = sr_id serviceRequest\<rparr> d1
             in (Inr updatedRequest, d2)))"

record complete_body =
  body_material_cost :: js_value
  body_labor_cost :: js_value
  body_rating :: js_value
  body_review :: "string option"

definition completeServiceRequest ::
  "env \<Rightarrow> string option \<Rightarrow> string \<Rightarrow> complete_body \<Rightarrow> db
     \<Rightarrow> (error + service_request option) \<times> db" where
  "completeServiceRequest e user rid b d =
     (case user of
        None \<Rightarrow> (Inl (CustomError ''Unauthorized'' 401), d)
      | Some userId \<Rightarrow>
        if userId = [] then (Inl (CustomError ''Unauthorized'' 401), d)
        else if \<not> truthy (body_material_cost b) \<or> \<not> truthy (body_labor_cost b)
                \<or> \<not> truthy (body_rating b) then
          (Inl (CustomError ''Missing required fields'' 400), d)
        else
        (case (parseFloat (body_material_cost b), parseFloat (body_labor_cost b),
               parseInt (body_rating b)) of
           (Some materialCost, Some laborCost, Some customerRating) \<Rightarrow>
             if customerRating < 1 \<or> customerRating > 5 then
               (Inl (CustomError ''Rating must be between 1 and 5'' 400), d)
             else
             (case select_single e SelectRequest (request_by_id rid d) of
                None \<Rightarrow> (Inl (CustomError ''Service request not found'' 404), d)
              | Some serviceRequest \<Rightarrow>
                if customer_id serviceRequest \<noteq> userId then
                  (Inl (CustomError ''Only the customer can complete this request'' 403), d)
                else if status serviceRequest \<noteq> in_progress then
                  (Inl (CustomError ''Service request is not in progress'' 400), d)
                else if fails e UpdateRequest then
                  (Inl (CustomError ''Failed to complete service request'' 500), d)
                else
                  let updateData = customer_confirmation materialCost laborCost customerRating
                                     (body_review b);
                      d1 = update_request rid
                             (\<lambda>r. if mechanic_confirmed serviceRequest
                                  then finalized (now e) (updateData r)
                                  else updateData r) d;
                      updatedRequest = single (request_by_id rid d1);
                      d2 = (if mechanic_confirmed serviceRequest
                            then process_commission e rid (mechanic_id serviceRequest) laborCost d1
                            else d1);
                      d3 = update_average_rating e (mechanic_id serviceRequest) d2
                  in (Inr updatedRequest, d3))
         | _ \<Rightarrow> (Inl (CustomError ''Invalid cost or rating values'' 400), d)))"


section \<open>Request state machine: the provider's handlers\<close>

definition acceptServiceRequest ::
  "env \<Rightarrow> string option \<Rightarrow> string \<Rightarrow> db \<Rightarrow> (error + service_request option) \<times> db" where
  "acceptServiceRequest e user rid d =
     (case user of
        None \<Rightarrow> (Inl (CustomError ''Unauthorized'' 401), d)
      | Some userId \<Rightarrow>
        if userId = [] then (Inl (CustomError ''Unauthorized'' 401), d)
        else
        (case select_single e SelectProfile (profile_by_user userId d) of
           None \<Rightarrow> (Inl (CustomError ''Mechanic profile not found'' 404), d)
         | Some mechanicProfile \<Rightarrow>
           if \<not> is_available mechanicProfile then
             (Inl (CustomError ''Mechanic is not available'' 400), d)
           else
           (case select_single e SelectRequest (request_by_id rid d) of
              None \<Rightarrow> (Inl (CustomError ''Service request not found'' 404), d)
            | Some serviceRequest \<Rightarrow>
              if mechanic_id serviceRequest \<noteq> userId then
                (Inl (CustomError ''Service request not assigned to this mechanic'' 403), d)
              else if status serviceRequest \<noteq> pending then
                (Inl (CustomError ''Service request is not pending'' 400), d)
              else if fails e UpdateRequest then
                (Inl (CustomError ''Failed to accept service request'' 500), d)
              else
                let d1 = update_request rid (\<lambda>r. r\<lparr>status := accepted\<rparr>) d;
                    updatedRequest = single (request_by_id rid d1);
                    d2 = insert_notification e
                           \<lparr>n_user_id = customer_id serviceRequest,
                            title = ''Service Request Accepted'',
                            body = ''A mechanic has accepted your service request'',
                            n_type = ''service_request'',
                            n_reference_id = rid\<rparr> d1
                in (Inr updatedRequest, d2))))"

definition declineServiceRequest ::
  "env \<Rightarrow> string option \<Rightarrow> string \<Rightarrow> db \<Rightarrow> (error + service_request option) \<times> db" where
  "declineServiceRequest e user rid d =
     (case user of
        None \<Rightarrow> (Inl (CustomError ''Unauthorized'' 401), d)
      | Some userId \<Rightarrow>
        if userId = [] then (Inl (CustomError ''Unauthorized'' 401), d)
        else
        (case select_single e SelectRequest (request_by_id rid d) of
           None \<Rightarrow> (Inl (CustomError ''Service request not found'' 404), d)
         | Some serviceRequest \<Rightarrow>
           if mechanic_id serviceRequest \<noteq> userId then
             (Inl (CustomError ''Service request not assigned to this mechanic'' 403), d)
           else if status serviceRequest \<noteq> pending then
             (Inl (CustomError ''Service request is not pending'' 400), d)
           else if fails e UpdateRequest then
             (Inl (CustomError ''Failed to decline service request'' 500), d)
           else
             let d1 = update_request rid (\<lambda>r. r\<lparr>status := cancelled\<rparr>) d
             in (Inr (single (request_by_id rid d1)), d1)))"

definition markArrived ::
  "env \<Rightarrow> string option \<Rightarrow> string \<Rightarrow> db \<Rightarrow> (error + service_request option) \<times> db" where
  "markArrived e user rid d =
     (case user of
        None \<Rightarrow> (Inl (CustomError ''Unauthorized'' 401), d)
      | Some userId \<Rightarrow>
        if userId = [] then (Inl (CustomError ''Unauthorized'' 401), d)
        else
        (case select_single e SelectRequest (request_by_id rid d) of
           None \<Rightarrow> (Inl (CustomError ''Service request not found'' 404), d)
         | Some serviceRequest \<Rightarrow>
           if mechanic_id serviceRequest \<noteq> userId then
             (Inl (CustomError ''Service request not assigned to this mechanic'' 403), d)
           else if status serviceRequest \<noteq> accepted then
             (Inl (CustomError ''Service request must be accepted first'' 400), d)
           else if fails e UpdateRequest then
             (Inl (CustomError ''Failed to mark as arrived'' 500), d)
           else
             let d1 = update_request rid
                        (\<lambda>r. r\<lparr>status := in_progress, arrived_at := Some (now e)\<rparr>) d;
                 updatedRequest = single (request_by_id rid d1);
                 d2 = insert_notification e
                        \<lparr>n_user_id = customer_id serviceRequest,
                         title = ''Mechanic Arrived'',
                         body = ''The mechanic has arrived at your location'',
                         n_type = ''service_request'',
                         n_reference_id = rid\<rparr> d1
             in (Inr updatedRequest, d2)))"

text \<open>
  The provider's completion call. The commission block and the notification are guarded
  by the truthiness of the stored labour cost: a labour cost that is null or zero skips
  both.
\<close>

definition completeServiceRequestMechanic ::
  "env \<Rightarrow> string option \<Rightarrow> string \<Rightarrow> db \<Rightarrow> (error + service_request option) \<times> db" where
  "completeServiceRequestMechanic e user rid d =
     (case user of
        None \<Rightarrow> (Inl (CustomError ''Unauthorized'' 401), d)
      | Some userId \<Rightarrow>
        if userId = [] then (Inl (CustomError ''Unauthorized'' 401), d)
        else
        (case select_single e SelectRequest (request_by_id rid d) of
           None \<Rightarrow> (Inl (CustomError ''Service request not found'' 404), d)
         | Some serviceRequest \<Rightarrow>
           if mechanic_id serviceRequest \<noteq> userId then
             (Inl (CustomError ''Service request not assigned to this mechanic'' 403), d)
           else if status serviceRequest \<noteq> in_progress then
             (Inl (CustomError ''Service request must be in progress'' 400), d)
           else if fails e UpdateRequest then
             (Inl (CustomError ''Failed to complete service request'' 500), d)
           else
             let d1 = update_request rid
                        (\<lambda>r. if customer_confirmed serviceRequest
                             then finalized (now e) (r\<lparr>mechanic_confirmed := True\<rparr>)
                             else r\<lparr>mechanic_confirmed := True\<rparr>) d;
                 updatedRequest = single (request_by_id rid d1);
                 d2 = (if customer_confirmed serviceRequest
                          \<and> or_zero (labor_cost serviceRequest) \<noteq> 0
                       then
                         insert_notification e
                           \<lparr>n_user_id = customer_id serviceRequest,
                            title = ''Service Completed'',
                            body = ''Your service request has been completed'',
                            n_type = ''service_request'',
                            n_reference_id = rid\<rparr>
                           (process_commission e rid userId
                              (or_zero (labor_cost serviceRequest)) d1)
                       else d1)
             in (Inr updatedRequest, d2)))"

definition toggleAvailability ::
  "env \<Rightarrow> string option \<Rightarrow> db \<Rightarrow> (error + bool) \<times> db" where
  "toggleAvailability e user d =
     (case user of
        None \<Rightarrow> (Inl (CustomError ''Unauthorized'' 401), d)
      | Some userId \<Rightarrow>
        if userId = [] then (Inl (CustomError ''Unauthorized'' 401), d)
        else
        (case select_single e SelectProfile (profile_by_user userId d) of
           None \<Rightarrow> (Inl (CustomError ''Mechanic profile not found'' 404), d)
         | Some mechanicProfile \<Rightarrow>
           if fails e UpdateAvailability then
             (Inl (CustomError ''Failed to update availability'' 500), d)
           else
             (Inr (\<not> is_available mechanicProfile),
              update_profile userId
                (\<lambda>p. p\<lparr>is_available := \<not> is_available mechanicProfile\<rparr>) d)))"

definition updateMechanicLocation ::
  "env \<Rightarrow> string option \<Rightarrow> js_value \<Rightarrow> js_value \<Rightarrow> db \<Rightarrow> (error + rat \<times> rat) \<times> db" where
  "updateMechanicLocation e user lat lng d =
     (case user of
        None \<Rightarrow> (Inl (CustomError ''Unauthorized'' 401), d)
      | Some userId \<Rightarrow>
        if userId = [] then (Inl (CustomError ''Unauthorized'' 401), d)
        else if \<not> truthy lat \<or> \<not> truthy lng then
          (Inl (CustomError ''Latitude and longitude are required'' 400), d)
        else
        (case (parseFloat lat, parseFloat lng) of
           (Some latitude, Some longitude) \<Rightarrow>
             if fails e UpdateLocation then
               (Inl (CustomError ''Failed to update location'' 500), d)
             else
               (Inr (latitude, longitude),
                d\<lparr>users := map (\<lambda>u. if u_id u = userId
                                     then u\<lparr>location_lat := Some latitude,
                                            location_lng := Some longitude\<rparr>
                                     else u) (users d)\<rparr>)
         | _ \<Rightarrow> (Inl (CustomError ''Invalid coordinates'' 400), d)))"

section \<open>Withdrawal processor\<close>

definition withdrawFromWallet ::
  "env \<Rightarrow> string option \<Rightarrow> js_value \<Rightarrow> string option \<Rightarrow> db
     \<Rightarrow> (error + rat \<times> wallet_transaction) \<times> db" where
  "withdrawFromWallet e user amount_in bank d =
     (case user of
        None \<Rightarrow> (Inl (CustomError ''Unauthorized'' 401), d)
      | Some userId \<Rightarrow>
        if userId = [] then (Inl (CustomError ''Unauthorized'' 401), d)
        else if \<not> truthy amount_in then (Inl (CustomError ''Amount is required'' 400), d)
        else
        (case parseFloat amount_in of
           None \<Rightarrow> (Inl (CustomError ''Invalid amount'' 400), d)
         | Some withdrawalAmount \<Rightarrow>
           if withdrawalAmount \<le> 0 then (Inl (CustomError ''Invalid amount'' 400), d)
           else
           (case select_single e SelectProfile (profile_by_user userId d) of
              None \<Rightarrow> (Inl (CustomError ''Mechanic profile not found'' 404), d)
            | Some mechanicProfile \<Rightarrow>
              let currentBalance = or_zero (wallet_balance mechanicProfile) in
              if currentBalance < withdrawalAmount then
                (Inl (CustomError ''Insufficient balance'' 400), d)
              else
                let newBalance = currentBalance - withdrawalAmount in
                if fails e UpdateBalance then
                  (Inl (CustomError ''Failed to update wallet balance'' 500), d)
                else
                  let d1 = update_profile userId (\<lambda>p. p\<lparr>wallet_balance := Some newBalance\<rparr>) d;
                      transaction =
                        \<lparr>wt_user_id = userId,
                         amount = - withdrawalAmount,
                         transaction_type = withdrawal,
                         description = ''Withdrawal request'',
                         reference_id = None,
                         reference_type = None,
                         wt_status = Some wd_pending,
                         bank_details = or_null bank\<rparr>
                  in if fails e InsertTransaction then
                       (Inl (CustomError ''Failed to create withdrawal transaction'' 500),
                        if fails e RollbackBalance then d1
                        else update_profile userId
                               (\<lambda>p. p\<lparr>wallet_balance := Some currentBalance\<rparr>) d1)
                     else
                       (Inr (newBalance, transaction),
                        d1\<lparr>wallet_transactions := wallet_transactions d1 @ [transaction]\<rparr>))))"

section \<open>Sequences of calls\<close>

text \<open>One inbound call: the handler, the authenticated user and the arguments.\<close>

datatype call =
    Create "string option" create_body
  | Cancel "string option" string
  | CompleteCustomer "string option" string complete_body
  | Accept "string option" string
  | Decline "string option" string
  | Arrived "string option" string
  | CompleteMechanic "string option" string
  | ToggleAvailability "string option"
  | UpdateLocation "string option" js_value js_value
  | Withdraw "string option" js_value "string option"

fun step :: "env \<times> call \<Rightarrow> db \<Rightarrow> db" where
  "step (e, Create u b) d = snd (createServiceRequest e u b d)"
| "step (e, Cancel u rid) d = snd (cancelServiceRequest e u rid d)"
| "step (e, CompleteCustomer u rid b) d = snd (completeServiceRequest e u rid b d)"
| "step (e, Accept u rid) d = snd (acceptServiceRequest e u rid d)"
| "step (e, Decline u rid) d = snd (declineServiceRequest e u rid d)"
| "step (e, Arrived u rid) d = snd (markArrived e u rid d)"
| "step (e, CompleteMechanic u rid) d = snd (completeServiceRequestMechanic e u rid d)"
| "step (e, ToggleAvailability u) d = snd (toggleAvailability e u d)"
| "step (e, UpdateLocation u lat lng) d = snd (updateMechanicLocation e u lat lng d)"
| "step (e, Withdraw u a bank) d = snd (withdrawFromWallet e u a bank d)"

definition run :: "(env \<times> call) list \<Rightarrow> db \<Rightarrow> db" where
  "run cs d = fold step cs d"

section \<open>Balance and ledger\<close>






text \<open>No call of the persistence layer reports an error.\<close>

definition no_failure :: "env \<Rightarrow> bool" where
  "no_failure e = (\<forall>c. \<not> fails e c)"

definition no_failures :: "(env \<times> call) list \<Rightarrow> bool" where
  "no_failures cs = (\<forall>ec \<in> set cs. no_failure (fst ec))"

section \<open>Ratings\<close>

text \<open>The mean of a list of ratings, rounded to one decimal place as the handler rounds it.\<close>

definition average_rating :: "int list \<Rightarrow> rat" where
  "average_rating rs =
     of_int (Math_round (of_int (sum_list rs) / of_nat (length rs) * 10)) / 10"

text \<open>The ratings the handler reads: every request of the provider that carries one.\<close>

definition ratings_of :: "string \<Rightarrow> db \<Rightarrow> int list" where
  "ratings_of uid d =
     map (\<lambda>r. or_zero (customer_rating r))
       (filter (\<lambda>r. mechanic_id r = uid \<and> customer_rating r \<noteq> None) (service_requests d))"

text \<open>
  The ratings in the words of the specification: those of the provider's completed
  requests.
\<close>

definition completed_ratings_of :: "string \<Rightarrow> db \<Rightarrow> int list" where
  "completed_ratings_of uid d =
     map (\<lambda>r. or_zero (customer_rating r))
       (filter (\<lambda>r. mechanic_id r = uid \<and> status r = completed \<and> customer_rating r \<noteq> None)
          (service_requests d))"

text \<open>Every provider with a rated request carries the rounded mean of the ratings read.\<close>

definition profile_ratings :: "db \<Rightarrow> (string \<times> rat option) list" where
  "profile_ratings d = map (\<lambda>p. (mp_user_id p, rating p)) (mechanic_profiles d)"

definition rating_current :: "db \<Rightarrow> bool" where
  "rating_current d =
     (\<forall>ur \<in> set (profile_ratings d).
        ratings_of (fst ur) d \<noteq> [] \<longrightarrow> snd ur = Some (average_rating (ratings_of (fst ur) d)))"

section \<open>The transition table\<close>

text \<open>
  The terminal statuses, the request that a call addresses, the statuses in which the call
  is a legal transition, and whether the call was answered with an error.
\<close>

definition terminal :: "request_status \<Rightarrow> bool" where
  "terminal s = (s = completed \<or> s = cancelled)"

fun target :: "call \<Rightarrow> string option" where
  "target (Cancel u rid) = Some rid"
| "target (CompleteCustomer u rid b) = Some rid"
| "target (Accept u rid) = Some rid"
| "target (Decline u rid) = Some rid"
| "target (Arrived u rid) = Some rid"
| "target (CompleteMechanic u rid) = Some rid"
| "target _ = None"

fun allowed :: "call \<Rightarrow> request_status set" where
  "allowed (Cancel u rid) = {pending, accepted}"
| "allowed (CompleteCustomer u rid b) = {in_progress}"
| "allowed (Accept u rid) = {pending}"
| "allowed (Decline u rid) = {pending}"
| "allowed (Arrived u rid) = {accepted}"
| "allowed (CompleteMechanic u rid) = {in_progress}"
| "allowed _ = {}"

fun rejected :: "env \<times> call \<Rightarrow> db \<Rightarrow> bool" where
  "rejected (e, Create u b) d = isl (fst (createServiceRequest e u b d))"
| "rejected (e, Cancel u rid) d = isl (fst (cancelServiceRequest e u rid d))"
| "rejected (e, CompleteCustomer u rid b) d = isl (fst (completeServiceRequest e u rid b d))"
| "rejected (e, Accept u rid) d = isl (fst (acceptServiceRequest e u rid d))"
| "rejected (e, Decline u rid) d = isl (fst (declineServiceRequest e u rid d))"
| "rejected (e, Arrived u rid) d = isl (fst (markArrived e u rid d))"
| "rejected (e, CompleteMechanic u rid) d = isl (fst (completeServiceRequestMechanic e u rid d))"
| "rejected (e, ToggleAvailability u) d = isl (fst (toggleAvailability e u d))"
| "rejected (e, UpdateLocation u lat lng) d = isl (fst (updateMechanicLocation e u lat lng d))"
| "rejected (e, Withdraw u a bank) d = isl (fst (withdrawFromWallet e u a bank d))"

text \<open>The request row at position \<open>i\<close> of the table is the same in both states.\<close>

definition keeps_row :: "db \<Rightarrow> nat \<Rightarrow> db \<Rightarrow> bool" where
  "keeps_row d i d' =
     (i < length (service_requests d') \<and> service_requests d' ! i = service_requests d ! i)"

section \<open>A sample deployment\<close>

text \<open>
  One customer with a vehicle and one approved, available provider with an empty wallet;
  the calls that take a request of theirs to \<open>in_progress\<close>. Used to run the handlers on
  concrete data.
\<close>

definition env0 :: env where
  "env0 = \<lparr>fails = (\<lambda>c. False), now = ''2024-05-01T10:00:00.000Z'', new_id = ''r1''\<rparr>"

definition profile0 :: mechanic_profile where
  "profile0 =
     \<lparr>mp_id = ''p1'', mp_user_id = ''m1'', verification_status = approved,
      is_available = True, rating = Some 0, total_jobs = Some 0,
      wallet_balance = Some 0, profile_photo_url = None\<rparr>"

definition db0 :: db where
  "db0 =
     \<lparr>users = [\<lparr>u_id = ''c1'', full_name = ''Ada'', profile_picture_url = None,
                 location_lat = None, location_lng = None\<rparr>,
               \<lparr>u_id = ''m1'', full_name = ''Bayo'', profile_picture_url = None,
                 location_lat = Some (13 / 2), location_lng = Some (17 / 5)\<rparr>],
      customer_vehicles = [\<lparr>cv_id = ''v1'', cv_customer_id = ''c1''\<rparr>],
      mechanic_profiles = [profile0],
      mechanic_specializations = [\<lparr>ms_mechanic_id = ''p1'', specialization = ''Engine''\<rparr>],
      service_requests = [],
      wallet_transactions = [],
      notifications = []\<rparr>"

definition body0 :: create_body where
  "body0 = \<lparr>body_mechanic_id = Some ''m1'', body_vehicle_id = Some ''v1'',
             body_category_id = Some ''k1'', body_problem_description = Some ''flat tyre'',
             body_location = Some \<lparr>loc_lat = Some (13 / 2), loc_lng = Some (17 / 5),
                                    loc_address = None\<rparr>\<rparr>"

definition to_in_progress :: "(env \<times> call) list" where
  "to_in_progress =
     [(env0, Create (Some ''c1'') body0), (env0, Accept (Some ''m1'') ''r1''),
      (env0, Arrived (Some ''m1'') ''r1'')]"

definition pay :: "js_value \<Rightarrow> js_value \<Rightarrow> js_value \<Rightarrow> complete_body" where
  "pay m l r =
     \<lparr>body_material_cost = m, body_labor_cost = l, body_rating = r, body_review = None\<rparr>"

section \<open>Invariants of the store\<close>

text \<open>
  A fresh deployment: no request and no ledger row yet, and every wallet at zero (the
  column default). Users, vehicles and provider profiles are arbitrary.
\<close>

definition initial :: "db \<Rightarrow> bool" where
  "initial d =
     (service_requests d = [] \<and> wallet_transactions d = []
      \<and> (\<forall>p \<in> set (mechanic_profiles d). or_zero (wallet_balance p) = 0))"



text \<open>A commission row refers to a request that exists and is completed.\<close>

definition settled_only_completed :: "db \<Rightarrow> bool" where
  "settled_only_completed d =
     (\<forall>t \<in> set (wallet_transactions d). \<forall>rid.
        reference_id t = Some rid \<and> reference_type t = Some ''service_request''
          \<and> transaction_type t = commission_deduction \<longrightarrow>
        rid \<in> sr_id ` set (service_requests d)
        \<and> (\<forall>r \<in> set (service_requests d). sr_id r = rid \<longrightarrow> status r = completed))"

definition at_most_one_commission :: "db \<Rightarrow> bool" where
  "at_most_one_commission d = (\<forall>rid. length (commission_rows rid d) \<le> 1)"


definition ledger_refs :: "db \<Rightarrow> bool" where
  "ledger_refs d = (settled_only_completed d \<and> at_most_one_commission d)"

text \<open>The sample request as it stands once the provider has arrived.\<close>

definition request0 :: service_request where
  "request0 =
     \<lparr>sr_id = ''r1'', customer_id = ''c1'', mechanic_id = ''m1'', vehicle_id = ''v1'',
      category_id = ''k1'', problem_description = ''flat tyre'',
      customer_location_lat = Some (13 / 2), customer_location_lng = Some (17 / 5),
      customer_location_address = None, status = in_progress,
      material_cost = None, labor_cost = None, total_cost = None,
      customer_rating = None, customer_review = None,
      mechanic_confirmed = False, customer_confirmed = False,
      arrived_at = Some ''2024-05-01T10:00:00.000Z'', completed_at = None\<rparr>"

text \<open>The sample request settled: the provider confirms, then the customer pays.\<close>

definition settle_calls :: "(env \<times> call) list" where
  "settle_calls =
     to_in_progress @
     [(env0, CompleteMechanic (Some ''m1'') ''r1''),
      (env0, CompleteCustomer (Some ''c1'') ''r1'' (pay (JNum 50) (JNum 100) (JNum 5)))]"



text \<open>
  A state outside the runs of the handlers: the sample request confirmed by the provider,
  with a commission row for it already in the ledger.
\<close>

definition db_logged :: db where
  "db_logged =
     (run (to_in_progress @ [(env0, CompleteMechanic (Some ''m1'') ''r1'')]) db0)
       \<lparr>wallet_transactions :=
          [\<lparr>wt_user_id = ''m1'', amount = - 15, transaction_type = commission_deduction,
            description = ''Commission deduction (15%) for service request r1'',
            reference_id = Some ''r1'', reference_type = Some ''service_request'',
            wt_status = None, bank_details = None\<rparr>]\<rparr>"





text \<open>The sample request cancelled by the customer while pending.\<close>

definition db_cancelled :: db where
  "db_cancelled =
     run [(env0, Create (Some ''c1'') body0), (env0, Cancel (Some ''c1'') ''r1'')] db0"

definition request_cancelled :: service_request where
  "request_cancelled = request0\<lparr>status := cancelled, arrived_at := None\<rparr>"


text \<open>
  Two jobs of the sample provider: the first rated 5 by the customer and never confirmed
  by the provider, the second confirmed by the provider and then rated 2.
\<close>

definition two_jobs :: "(env \<times> call) list" where
  "two_jobs =
     to_in_progress @
     [(env0, CompleteCustomer (Some ''c1'') ''r1'' (pay (JNum 50) (JNum 100) (JNum 5))),
      (env0\<lparr>new_id := ''r2''\<rparr>, Create (Some ''c1'') body0),
      (env0, Accept (Some ''m1'') ''r2''),
      (env0, Arrived (Some ''m1'') ''r2''),
      (env0, CompleteMechanic (Some ''m1'') ''r2''),
      (env0, CompleteCustomer (Some ''c1'') ''r2'' (pay (JNum 50) (JNum 100) (JNum 2)))]"

section \<open>Auxiliary facts about the store operations\<close>

subsection \<open>What the store operations leave alone\<close>

lemma single_Some_iff: "single xs = Some x \<longleftrightarrow> xs = [x]"
  by (cases xs rule: list.exhaust; simp add: single_def split: list.splits)

lemma select_single_SomeD: "select_single e c xs = Some x \<Longrightarrow> xs = [x]"
  by (simp add: select_single_def single_Some_iff split: if_splits)

lemma requests_process_commission:
  "service_requests (process_commission e rid uid l d) = service_requests d"
  by (simp add: process_commission_def insert_transaction_def update_profile_def Let_def
      split: option.splits)

lemma requests_update_average_rating:
  "service_requests (update_average_rating e uid d) = service_requests d"
  by (simp add: update_average_rating_def update_profile_def Let_def)

lemma requests_insert_notification:
  "service_requests (insert_notification e n d) = service_requests d"
  by (simp add: insert_notification_def)

lemma requests_update_request:
  "service_requests (update_request rid f d)
     = map (\<lambda>r. if sr_id r = rid then f r else r) (service_requests d)"
  by (simp add: update_request_def)

lemma requests_update_profile:
  "service_requests (update_profile uid f d) = service_requests d"
  by (simp add: update_profile_def)

lemma transactions_update_request:
  "wallet_transactions (update_request rid f d) = wallet_transactions d"
  by (simp add: update_request_def)

lemma transactions_insert_notification:
  "wallet_transactions (insert_notification e n d) = wallet_transactions d"
  by (simp add: insert_notification_def)

lemma transactions_update_profile:
  "wallet_transactions (update_profile uid f d) = wallet_transactions d"
  by (simp add: update_profile_def)

lemma transactions_update_average_rating:
  "wallet_transactions (update_average_rating e uid d) = wallet_transactions d"
  by (simp add: update_average_rating_def update_profile_def Let_def)

lemma profiles_update_request:
  "mechanic_profiles (update_request rid f d) = mechanic_profiles d"
  by (simp add: update_request_def)

lemma profiles_insert_notification:
  "mechanic_profiles (insert_notification e n d) = mechanic_profiles d"
  by (simp add: insert_notification_def)

lemma profiles_update_profile:
  "mechanic_profiles (update_profile uid f d)
     = map (\<lambda>p. if mp_user_id p = uid then f p else p) (mechanic_profiles d)"
  by (simp add: update_profile_def)

lemma update_request_single:
  assumes "single (request_by_id rid d) = Some sr"
  shows "single (request_by_id rid (update_request rid f d)) = (if sr_id (f sr) = rid then Some (f sr) else None)"
proof -
  have *: "filter (\<lambda>r. sr_id r = rid) (service_requests d) = [sr]"
    using assms by (simp add: single_Some_iff request_by_id_def)
  have "filter (\<lambda>r. sr_id r = rid) (map (\<lambda>r. if sr_id r = rid then f r else r) xs)
          = filter (\<lambda>r. sr_id r = rid) (map f (filter (\<lambda>r. sr_id r = rid) xs))" for xs
    by (induction xs) auto
  then show ?thesis
    using * by (simp add: request_by_id_def update_request_def single_def)
qed

subsection \<open>The effect of each handler\<close>

lemma createServiceRequest_effect:
  assumes "createServiceRequest e u b d = (res, d')"
  shows "(\<exists>err. res = Inl err \<and> d' = d)
       \<or> (\<exists>r n. res = Inr r \<and> sr_id r = new_id e \<and> new_id e \<notin> sr_id ` set (service_requests d)
              \<and> status r = pending \<and> \<not> customer_confirmed r \<and> \<not> mechanic_confirmed r
              \<and> customer_rating r = None
              \<and> single (profile_by_user (mechanic_id r) d) \<noteq> None
              \<and> d' = insert_notification e n (d\<lparr>service_requests := service_requests d @ [r]\<rparr>))"
  using assms
  by (auto simp: createServiceRequest_def Let_def select_single_def
      split: option.splits if_splits)

lemma cancelServiceRequest_effect:
  assumes "cancelServiceRequest e u rid d = (res, d')"
  shows "(\<exists>err. res = Inl err \<and> d' = d)
       \<or> (\<exists>sr n. single (request_by_id rid d) = Some sr \<and> u = Some (customer_id sr)
              \<and> (status sr = pending \<or> status sr = accepted)
              \<and> res = Inr (single (request_by_id rid (update_request rid (\<lambda>r. r\<lparr>status := cancelled\<rparr>) d)))
              \<and> d' = insert_notification e n (update_request rid (\<lambda>r. r\<lparr>status := cancelled\<rparr>) d))"
  using assms
  by (auto simp: cancelServiceRequest_def Let_def select_single_def
      split: option.splits if_splits)

lemma acceptServiceRequest_effect:
  assumes "acceptServiceRequest e u rid d = (res, d')"
  shows "(\<exists>err. res = Inl err \<and> d' = d)
       \<or> (\<exists>sr n. single (request_by_id rid d) = Some sr \<and> u = Some (mechanic_id sr)
              \<and> status sr = pending
              \<and> res = Inr (single (request_by_id rid (update_request rid (\<lambda>r. r\<lparr>status := accepted\<rparr>) d)))
              \<and> d' = insert_notification e n (update_request rid (\<lambda>r. r\<lparr>status := accepted\<rparr>) d))"
  using assms
  by (auto simp: acceptServiceRequest_def Let_def select_single_def
      split: option.splits if_splits)

lemma declineServiceRequest_effect:
  assumes "declineServiceRequest e u rid d = (res, d')"
  shows "(\<exists>err. res = Inl err \<and> d' = d)
       \<or> (\<exists>sr. single (request_by_id rid d) = Some sr \<and> u = Some (mechanic_id sr)
              \<and> status sr = pending
              \<and> res = Inr (single (request_by_id rid (update_request rid (\<lambda>r. r\<lparr>status := cancelled\<rparr>) d)))
              \<and> d' = update_request rid (\<lambda>r. r\<lparr>status := cancelled\<rparr>) d)"
  using assms
  by (auto simp: declineServiceRequest_def Let_def select_single_def
      split: option.splits if_splits)

lemma markArrived_effect:
  assumes "markArrived e u rid d = (res, d')"
  shows "(\<exists>err. res = Inl err \<and> d' = d)
       \<or> (\<exists>sr n. single (request_by_id rid d) = Some sr \<and> u = Some (mechanic_id sr)
              \<and> status sr = accepted
              \<and> res = Inr (single (request_by_id rid
                      (update_request rid (\<lambda>r. r\<lparr>status := in_progress, arrived_at := Some (now e)\<rparr>) d)))
              \<and> d' = insert_notification e n
                      (update_request rid (\<lambda>r. r\<lparr>status := in_progress, arrived_at := Some (now e)\<rparr>) d))"
  using assms
  by (auto simp: markArrived_def Let_def select_single_def
      split: option.splits if_splits)

lemma completeServiceRequest_effect:
  assumes "completeServiceRequest e u rid b d = (res, d')"
  shows "(\<exists>err. res = Inl err \<and> d' = d)
       \<or> (\<exists>sr M L R.
              single (request_by_id rid d) = Some sr \<and> u = Some (customer_id sr)
              \<and> status sr = in_progress
              \<and> parseFloat (body_material_cost b) = Some M
              \<and> parseFloat (body_labor_cost b) = Some L
              \<and> parseInt (body_rating b) = Some R \<and> 1 \<le> R \<and> R \<le> 5
              \<and> res = Inr (single (request_by_id rid
                      (update_request rid
                         (\<lambda>r. if mechanic_confirmed sr
                              then finalized (now e) (customer_confirmation M L R (body_review b) r)
                              else customer_confirmation M L R (body_review b) r) d)))
              \<and> d' = update_average_rating e (mechanic_id sr)
                      ((if mechanic_confirmed sr
                        then process_commission e rid (mechanic_id sr) L else (\<lambda>x. x))
                         (update_request rid
                            (\<lambda>r. if mechanic_confirmed sr
                                 then finalized (now e) (customer_confirmation M L R (body_review b) r)
                                 else customer_confirmation M L R (body_review b) r) d)))"
  using assms
  by (auto simp: completeServiceRequest_def Let_def select_single_def
      split: option.splits if_splits)

lemma completeServiceRequestMechanic_effect:
  assumes "completeServiceRequestMechanic e u rid d = (res, d')"
  shows "(\<exists>err. res = Inl err \<and> d' = d)
       \<or> (\<exists>sr n.
              single (request_by_id rid d) = Some sr \<and> u = Some (mechanic_id sr)
              \<and> status sr = in_progress
              \<and> res = Inr (single (request_by_id rid
                      (update_request rid
                         (\<lambda>r. if customer_confirmed sr
                              then finalized (now e) (r\<lparr>mechanic_confirmed := True\<rparr>)
                              else r\<lparr>mechanic_confirmed := True\<rparr>) d)))
              \<and> d' = (if customer_confirmed sr \<and> or_zero (labor_cost sr) \<noteq> 0
                      then (\<lambda>x. insert_notification e n
                              (process_commission e rid (mechanic_id sr) (or_zero (labor_cost sr)) x))
                      else (\<lambda>x. x))
                       (update_request rid
                          (\<lambda>r. if customer_confirmed sr
                               then finalized (now e) (r\<lparr>mechanic_confirmed := True\<rparr>)
                               else r\<lparr>mechanic_confirmed := True\<rparr>) d))"
  using assms
  by (auto simp: completeServiceRequestMechanic_def Let_def select_single_def
      split: option.splits if_splits)


lemma toggleAvailability_effect:
  assumes "toggleAvailability e u d = (res, d')"
  shows "(\<exists>err. res = Inl err \<and> d' = d)
       \<or> (\<exists>uid a. res = Inr a \<and> d' = update_profile uid (\<lambda>p. p\<lparr>is_available := a\<rparr>) d)"
  using assms
  by (auto simp: toggleAvailability_def split: option.splits if_splits)

lemma updateMechanicLocation_effect:
  assumes "updateMechanicLocation e u la lo d = (res, d')"
  shows "(\<exists>err. res = Inl err \<and> d' = d) \<or> (\<exists>us. d' = d\<lparr>users := us\<rparr>)"
  using assms
  by (auto simp: updateMechanicLocation_def split: option.splits if_splits)

lemma withdrawFromWallet_effect:
  assumes "withdrawFromWallet e u a bank d = (res, d')"
  shows "(\<exists>err. res = Inl err \<and> d' = d)
       \<or> (\<exists>uid p w.
              u = Some uid \<and> truthy a \<and> parseFloat a = Some w \<and> 0 < w
              \<and> single (profile_by_user uid d) = Some p
              \<and> w \<le> or_zero (wallet_balance p)
              \<and> (if fails e InsertTransaction
                  then (\<exists>err. res = Inl err)
                       \<and> d' = (if fails e RollbackBalance
                               then update_profile uid
                                      (\<lambda>q. q\<lparr>wallet_balance := Some (or_zero (wallet_balance p) - w)\<rparr>) d
                               else update_profile uid
                                      (\<lambda>q. q\<lparr>wallet_balance := Some (or_zero (wallet_balance p))\<rparr>)
                                      (update_profile uid
                                         (\<lambda>q. q\<lparr>wallet_balance := Some (or_zero (wallet_balance p) - w)\<rparr>) d))
                  else (\<exists>t. wt_user_id t = uid \<and> amount t = - w \<and> transaction_type t = withdrawal
                          \<and> wt_status t = Some wd_pending \<and> reference_id t = None
                          \<and> res = Inr (or_zero (wallet_balance p) - w, t)
                          \<and> d' = (update_profile uid
                                 (\<lambda>q. q\<lparr>wallet_balance := Some (or_zero (wallet_balance p) - w)\<rparr>) d)
                               \<lparr>wallet_transactions := wallet_transactions d @ [t]\<rparr>)))"
  using assms
  by (auto simp: withdrawFromWallet_def Let_def select_single_def update_profile_def
      split: option.splits if_splits)

lemma process_commission_effect:
  "process_commission e rid uid L d = d
   \<or> (\<exists>p. single (profile_by_user uid d) = Some p
          \<and> select_single e SelectTransaction (commission_rows rid d) = None
          \<and> process_commission e rid uid L d
              = (if fails e InsertTransaction then (\<lambda>x. x)
                 else (\<lambda>x. x\<lparr>wallet_transactions := wallet_transactions x @
                        [\<lparr>wt_user_id = uid, amount = - (L * (15 / 100)),
                          transaction_type = commission_deduction,
                          description = ''Commission deduction (15%) for service request '' @ rid,
                          reference_id = Some rid, reference_type = Some ''service_request'',
                          wt_status = None, bank_details = None\<rparr>]\<rparr>))
                ((if fails e UpdateBalance then (\<lambda>x. x)
                  else update_profile uid
                         (\<lambda>q. q\<lparr>wallet_balance :=
                                  Some (or_zero (wallet_balance p) + (L - L * (15 / 100)))\<rparr>)) d))"
  by (auto simp: process_commission_def Let_def select_single_def insert_transaction_def
      split: option.splits if_splits)


lemma process_commission_transactions:
  "wallet_transactions (process_commission e rid uid L d) = wallet_transactions d
   \<or> (select_single e SelectTransaction (commission_rows rid d) = None
      \<and> single (profile_by_user uid d) \<noteq> None \<and> \<not> fails e InsertTransaction
      \<and> wallet_transactions (process_commission e rid uid L d)
          = wallet_transactions d @
              [\<lparr>wt_user_id = uid, amount = - (L * (15 / 100)),
                transaction_type = commission_deduction,
                description = ''Commission deduction (15%) for service request '' @ rid,
                reference_id = Some rid, reference_type = Some ''service_request'',
                wt_status = None, bank_details = None\<rparr>])"
  by (auto simp: process_commission_def Let_def select_single_def insert_transaction_def
      update_profile_def split: option.splits if_splits)

lemma process_commission_profiles:
  "mechanic_profiles (process_commission e rid uid L d) = mechanic_profiles d
   \<or> (\<exists>p. select_single e SelectTransaction (commission_rows rid d) = None
          \<and> single (profile_by_user uid d) = Some p \<and> \<not> fails e UpdateBalance
          \<and> mechanic_profiles (process_commission e rid uid L d)
              = map (\<lambda>q. if mp_user_id q = uid
                          then q\<lparr>wallet_balance :=
                                   Some (or_zero (wallet_balance p) + (L - L * (15 / 100)))\<rparr>
                          else q) (mechanic_profiles d))"
  by (auto simp: process_commission_def Let_def select_single_def insert_transaction_def
      update_profile_def split: option.splits if_splits)

section \<open>Invariants of every run\<close>

subsection \<open>Prices are set when the customer has confirmed\<close>














lemma step_preserves:
  assumes create: "\<And>e u b res d'. createServiceRequest e u b d = (res, d') \<Longrightarrow> P d'"
    and cancel: "\<And>e u rid res d'. cancelServiceRequest e u rid d = (res, d') \<Longrightarrow> P d'"
    and customer: "\<And>e u rid b res d'. completeServiceRequest e u rid b d = (res, d') \<Longrightarrow> P d'"
    and accept: "\<And>e u rid res d'. acceptServiceRequest e u rid d = (res, d') \<Longrightarrow> P d'"
    and decline: "\<And>e u rid res d'. declineServiceRequest e u rid d = (res, d') \<Longrightarrow> P d'"
    and arrived: "\<And>e u rid res d'. markArrived e u rid d = (res, d') \<Longrightarrow> P d'"
    and mechanic: "\<And>e u rid res d'. completeServiceRequestMechanic e u rid d = (res, d') \<Longrightarrow> P d'"
    and toggle: "\<And>e u res d'. toggleAvailability e u d = (res, d') \<Longrightarrow> P d'"
    and location: "\<And>e u la lo res d'. updateMechanicLocation e u la lo d = (res, d') \<Longrightarrow> P d'"
    and withdraw: "\<And>e u a bank res d'. withdrawFromWallet e u a bank d = (res, d') \<Longrightarrow> P d'"
  shows "P (step ec d)"
proof -
  obtain e c where ec: "ec = (e, c)" by (cases ec)
  show ?thesis
  proof (cases c)
    case (Create u b)
    with ec create [OF surjective_pairing, of e u b] show ?thesis by simp
  next
    case (Cancel u rid)
    with ec cancel [OF surjective_pairing, of e u rid] show ?thesis by simp
  next
    case (CompleteCustomer u rid b)
    with ec customer [OF surjective_pairing, of e u rid b] show ?thesis by simp
  next
    case (Accept u rid)
    with ec accept [OF surjective_pairing, of e u rid] show ?thesis by simp
  next
    case (Decline u rid)
    with ec decline [OF surjective_pairing, of e u rid] show ?thesis by simp
  next
    case (Arrived u rid)
    with ec arrived [OF surjective_pairing, of e u rid] show ?thesis by simp
  next
    case (CompleteMechanic u rid)
    with ec mechanic [OF surjective_pairing, of e u rid] show ?thesis by simp
  next
    case (ToggleAvailability u)
    with ec toggle [OF surjective_pairing, of e u] show ?thesis by simp
  next
    case (UpdateLocation u la lo)
    with ec location [OF surjective_pairing, of e u la lo] show ?thesis by simp
  next
    case (Withdraw u a bank)
    with ec withdraw [OF surjective_pairing, of e u a bank] show ?thesis by simp
  qed
qed




subsection \<open>Commission rows and completed requests\<close>


lemma commission_rows_same:
  "wallet_transactions d' = wallet_transactions d \<Longrightarrow> commission_rows rid d' = commission_rows rid d"
  by (simp add: commission_rows_def)

lemma ledger_refs_same:
  "wallet_transactions d' = wallet_transactions d \<Longrightarrow> service_requests d' = service_requests d
   \<Longrightarrow> ledger_refs d' = ledger_refs d"
  by (simp add: ledger_refs_def settled_only_completed_def at_most_one_commission_def
      commission_rows_def)

lemma single_request_in:
  "single (request_by_id rid d) = Some sr \<Longrightarrow> sr \<in> set (service_requests d) \<and> sr_id sr = rid"
proof -
  assume "single (request_by_id rid d) = Some sr"
  then have "filter (\<lambda>r. sr_id r = rid) (service_requests d) = [sr]"
    by (simp add: single_Some_iff request_by_id_def)
  then have "sr \<in> set (filter (\<lambda>r. sr_id r = rid) (service_requests d))" by simp
  then show ?thesis by simp
qed

lemma unsettled_no_rows:
  assumes "settled_only_completed d" "single (request_by_id rid d) = Some sr" "status sr \<noteq> completed"
  shows "commission_rows rid d = []"
proof (rule ccontr)
  assume "commission_rows rid d \<noteq> []"
  then obtain t where "t \<in> set (commission_rows rid d)" by (cases "commission_rows rid d") auto
  then have "t \<in> set (wallet_transactions d)" "reference_id t = Some rid"
    "reference_type t = Some ''service_request''" "transaction_type t = commission_deduction"
    by (auto simp: commission_rows_def)
  with assms(1) have "\<forall>r \<in> set (service_requests d). sr_id r = rid \<longrightarrow> status r = completed"
    unfolding settled_only_completed_def by blast
  with single_request_in [OF assms(2)] assms(3) show False by blast
qed

text \<open>A row update that keeps identifiers, on a request that is not completed.\<close>

lemma ledger_refs_update_request:
  assumes inv: "ledger_refs d"
    and sr: "single (request_by_id rid d) = Some sr" "status sr \<noteq> completed"
    and ids: "\<And>r. sr_id (f r) = sr_id r"
  shows "ledger_refs (update_request rid f d)"
proof -
  have none: "commission_rows rid d = []"
    using inv sr by (auto simp: ledger_refs_def intro: unsettled_no_rows)
  have soc: "settled_only_completed d" and amo: "at_most_one_commission d"
    using inv by (auto simp: ledger_refs_def)
  have "settled_only_completed (update_request rid f d)"
    unfolding settled_only_completed_def
  proof (intro ballI allI impI)
    fix t rid'
    assume t: "t \<in> set (wallet_transactions (update_request rid f d))"
      and ref: "reference_id t = Some rid' \<and> reference_type t = Some ''service_request''
                \<and> transaction_type t = commission_deduction"
    from t have t': "t \<in> set (wallet_transactions d)" by (simp add: transactions_update_request)
    with ref have "t \<in> set (commission_rows rid' d)" by (simp add: commission_rows_def)
    with none have neq: "rid' \<noteq> rid" by auto
    from soc t' ref have old: "rid' \<in> sr_id ` set (service_requests d)"
      "\<forall>r \<in> set (service_requests d). sr_id r = rid' \<longrightarrow> status r = completed"
      unfolding settled_only_completed_def by blast+
    show "rid' \<in> sr_id ` set (service_requests (update_request rid f d))
          \<and> (\<forall>r \<in> set (service_requests (update_request rid f d)).
                sr_id r = rid' \<longrightarrow> status r = completed)"
      using old neq ids by (auto simp: requests_update_request image_iff)
  qed
  moreover have "at_most_one_commission (update_request rid f d)"
    using amo by (simp add: at_most_one_commission_def commission_rows_def transactions_update_request)
  ultimately show ?thesis by (simp add: ledger_refs_def)
qed

text \<open>The commission block, run on a request just written as completed that has no row yet.\<close>

lemma commission_rows_process_commission:
  "commission_rows rid' (process_commission e rid uid L d) = commission_rows rid' d
   \<or> (rid' = rid \<and> (\<exists>t. commission_rows rid' (process_commission e rid uid L d)
                           = commission_rows rid' d @ [t]))"
proof (cases "wallet_transactions (process_commission e rid uid L d) = wallet_transactions d")
  case True
  then show ?thesis by (simp add: commission_rows_def)
next
  case False
  with process_commission_transactions [of e rid uid L d]
  obtain t where t: "wallet_transactions (process_commission e rid uid L d)
                       = wallet_transactions d @ [t]"
    and ref: "reference_id t = Some rid" "reference_type t = Some ''service_request''"
      "transaction_type t = commission_deduction"
    by auto
  show ?thesis
  proof (cases "rid' = rid")
    case True
    with t ref show ?thesis by (simp add: commission_rows_def)
  next
    case False
    with t ref show ?thesis by (simp add: commission_rows_def)
  qed
qed

lemma transactions_process_commission:
  "t \<in> set (wallet_transactions (process_commission e rid uid L d)) \<Longrightarrow>
   t \<in> set (wallet_transactions d)
   \<or> (reference_id t = Some rid \<and> transaction_type t = commission_deduction)"
  using process_commission_transactions [of e rid uid L d]
  by auto

lemma ledger_refs_process_commission:
  assumes inv: "ledger_refs d"
    and none: "commission_rows rid d = []"
    and ex: "rid \<in> sr_id ` set (service_requests d)"
    and compl: "\<forall>r \<in> set (service_requests d). sr_id r = rid \<longrightarrow> status r = completed"
  shows "ledger_refs (process_commission e rid uid L d)"
proof -
  have soc: "settled_only_completed d" and amo: "at_most_one_commission d"
    using inv by (auto simp: ledger_refs_def)
  have "settled_only_completed (process_commission e rid uid L d)"
    unfolding settled_only_completed_def requests_process_commission
  proof (intro ballI allI impI)
    fix t rid'
    assume t: "t \<in> set (wallet_transactions (process_commission e rid uid L d))"
      and ref: "reference_id t = Some rid' \<and> reference_type t = Some ''service_request''
                \<and> transaction_type t = commission_deduction"
    from transactions_process_commission [OF t]
    show "rid' \<in> sr_id ` set (service_requests d)
          \<and> (\<forall>r \<in> set (service_requests d). sr_id r = rid' \<longrightarrow> status r = completed)"
    proof
      assume "t \<in> set (wallet_transactions d)"
      with soc ref show ?thesis unfolding settled_only_completed_def by blast
    next
      assume "reference_id t = Some rid \<and> transaction_type t = commission_deduction"
      with ref have "rid' = rid" by simp
      with ex compl show ?thesis by simp
    qed
  qed
  moreover have "at_most_one_commission (process_commission e rid uid L d)"
    unfolding at_most_one_commission_def
  proof
    fix rid'
    from commission_rows_process_commission [of rid' e rid uid L d]
    show "length (commission_rows rid' (process_commission e rid uid L d)) \<le> 1"
    proof
      assume "commission_rows rid' (process_commission e rid uid L d) = commission_rows rid' d"
      with amo show ?thesis by (simp add: at_most_one_commission_def)
    next
      assume "rid' = rid \<and> (\<exists>t. commission_rows rid' (process_commission e rid uid L d)
                                  = commission_rows rid' d @ [t])"
      with none show ?thesis by auto
    qed
  qed
  ultimately show ?thesis by (simp add: ledger_refs_def)
qed


lemma ledger_refs_append_request:
  assumes "ledger_refs d" "sr_id r \<notin> sr_id ` set (service_requests d)"
  shows "ledger_refs (d\<lparr>service_requests := service_requests d @ [r]\<rparr>)"
proof -
  have "settled_only_completed (d\<lparr>service_requests := service_requests d @ [r]\<rparr>)"
    using assms by (fastforce simp: ledger_refs_def settled_only_completed_def)
  then show ?thesis
    using assms by (simp add: ledger_refs_def at_most_one_commission_def commission_rows_def)
qed

lemma ledger_refs_append_other:
  assumes "ledger_refs d" "transaction_type t \<noteq> commission_deduction"
    "wallet_transactions d' = wallet_transactions d @ [t]" "service_requests d' = service_requests d"
  shows "ledger_refs d'"
  using assms
  by (auto simp: ledger_refs_def settled_only_completed_def at_most_one_commission_def
      commission_rows_def)

lemma completed_after_update:
  assumes "single (request_by_id rid d) = Some sr" "\<And>r. sr_id (f r) = sr_id r"
    "\<And>r. status (f r) = completed"
  shows "rid \<in> sr_id ` set (service_requests (update_request rid f d))
         \<and> (\<forall>r \<in> set (service_requests (update_request rid f d)).
               sr_id r = rid \<longrightarrow> status r = completed)"
proof
  from single_request_in [OF assms(1)]
  have "f sr \<in> set (service_requests (update_request rid f d))"
    by (force simp: requests_update_request)
  moreover have "sr_id (f sr) = rid"
    using single_request_in [OF assms(1)] assms(2) by simp
  ultimately show "rid \<in> sr_id ` set (service_requests (update_request rid f d))"
    by (metis imageI)
  show "\<forall>r \<in> set (service_requests (update_request rid f d)). sr_id r = rid \<longrightarrow> status r = completed"
    using assms(2,3) by (auto simp: requests_update_request)
qed

lemma ledger_refs_settle:
  assumes inv: "ledger_refs d"
    and sr: "single (request_by_id rid d) = Some sr" "status sr \<noteq> completed"
    and ids: "\<And>r. sr_id (f r) = sr_id r"
    and st: "\<And>r. status (f r) = completed"
  shows "ledger_refs (process_commission e rid uid L (update_request rid f d))"
proof (rule ledger_refs_process_commission)
  show "ledger_refs (update_request rid f d)"
    using inv sr ids by (rule ledger_refs_update_request)
  have "commission_rows rid d = []"
    using inv sr by (auto simp: ledger_refs_def intro: unsettled_no_rows)
  then show "commission_rows rid (update_request rid f d) = []"
    by (simp add: commission_rows_def transactions_update_request)
  show "rid \<in> sr_id ` set (service_requests (update_request rid f d))"
    and "\<forall>r\<in>set (service_requests (update_request rid f d)). sr_id r = rid \<longrightarrow> status r = completed"
    using completed_after_update [OF sr(1) ids st] by blast+
qed

lemma sr_id_customer_confirmation [simp]: "sr_id (customer_confirmation M L R v r) = sr_id r"
  by (simp add: customer_confirmation_def)

lemma sr_id_finalized [simp]: "sr_id (finalized t r) = sr_id r"
  by (simp add: finalized_def)

lemma status_finalized [simp]: "status (finalized t r) = completed"
  by (simp add: finalized_def)

lemma ledger_refs_create:
  assumes "createServiceRequest e u b d = (res, d')" "ledger_refs d"
  shows "ledger_refs d'"
proof -
  from createServiceRequest_effect [OF assms(1)]
  consider "d' = d"
    | r n where "sr_id r \<notin> sr_id ` set (service_requests d)"
      "d' = insert_notification e n (d\<lparr>service_requests := service_requests d @ [r]\<rparr>)"
    by metis
  then show ?thesis
  proof cases
    case 1
    with assms(2) show ?thesis by simp
  next
    case 2
    from ledger_refs_append_request [OF assms(2) 2(1)] 2(2) show ?thesis
      by (simp add: ledger_refs_same [OF transactions_insert_notification
            requests_insert_notification])
  qed
qed

lemma ledger_refs_cancel:
  "cancelServiceRequest e u rid d = (res, d') \<Longrightarrow> ledger_refs d \<Longrightarrow> ledger_refs d'"
  by (drule cancelServiceRequest_effect)
    (auto simp: ledger_refs_same [OF transactions_insert_notification requests_insert_notification]
      intro!: ledger_refs_update_request)

lemma ledger_refs_accept:
  "acceptServiceRequest e u rid d = (res, d') \<Longrightarrow> ledger_refs d \<Longrightarrow> ledger_refs d'"
  by (drule acceptServiceRequest_effect)
    (auto simp: ledger_refs_same [OF transactions_insert_notification requests_insert_notification]
      intro!: ledger_refs_update_request)

lemma ledger_refs_decline:
  "declineServiceRequest e u rid d = (res, d') \<Longrightarrow> ledger_refs d \<Longrightarrow> ledger_refs d'"
  by (drule declineServiceRequest_effect) (auto intro!: ledger_refs_update_request)

lemma ledger_refs_arrived:
  "markArrived e u rid d = (res, d') \<Longrightarrow> ledger_refs d \<Longrightarrow> ledger_refs d'"
  by (drule markArrived_effect)
    (auto simp: ledger_refs_same [OF transactions_insert_notification requests_insert_notification]
      intro!: ledger_refs_update_request)

lemma ledger_refs_complete_customer:
  assumes "completeServiceRequest e u rid b d = (res, d')" "ledger_refs d"
  shows "ledger_refs d'"
proof -
  from completeServiceRequest_effect [OF assms(1)]
  consider "d' = d"
    | sr M L R where "single (request_by_id rid d) = Some sr" "status sr = in_progress"
      "d' = update_average_rating e (mechanic_id sr)
              ((if mechanic_confirmed sr
                then process_commission e rid (mechanic_id sr) L else (\<lambda>x. x))
                 (update_request rid
                    (\<lambda>r. if mechanic_confirmed sr
                         then finalized (now e) (customer_confirmation M L R (body_review b) r)
                         else customer_confirmation M L R (body_review b) r) d))"
    by blast
  then show ?thesis
  proof cases
    case 1
    with assms(2) show ?thesis by simp
  next
    case 2
    have st: "status sr \<noteq> completed" using 2(2) by simp
    show ?thesis
    proof (cases "mechanic_confirmed sr")
      case True
      have "ledger_refs (process_commission e rid (mechanic_id sr) L
              (update_request rid (\<lambda>r. finalized (now e) (customer_confirmation M L R (body_review b) r)) d))"
        by (rule ledger_refs_settle [OF assms(2) 2(1) st]) simp_all
      with True 2(3) show ?thesis
        by (simp add: ledger_refs_same [OF transactions_update_average_rating
              requests_update_average_rating])
    next
      case False
      have "ledger_refs (update_request rid (customer_confirmation M L R (body_review b)) d)"
        by (rule ledger_refs_update_request [OF assms(2) 2(1) st]) simp
      with False 2(3) show ?thesis
        by (simp add: ledger_refs_same [OF transactions_update_average_rating
              requests_update_average_rating])
    qed
  qed
qed

lemma ledger_refs_complete_mechanic:
  assumes "completeServiceRequestMechanic e u rid d = (res, d')" "ledger_refs d"
  shows "ledger_refs d'"
proof -
  from completeServiceRequestMechanic_effect [OF assms(1)]
  consider "d' = d"
    | sr n where "single (request_by_id rid d) = Some sr" "status sr = in_progress"
      "d' = (if customer_confirmed sr \<and> or_zero (labor_cost sr) \<noteq> 0
             then (\<lambda>x. insert_notification e n
                     (process_commission e rid (mechanic_id sr) (or_zero (labor_cost sr)) x))
             else (\<lambda>x. x))
              (update_request rid
                 (\<lambda>r. if customer_confirmed sr
                      then finalized (now e) (r\<lparr>mechanic_confirmed := True\<rparr>)
                      else r\<lparr>mechanic_confirmed := True\<rparr>) d)"
    by blast
  then show ?thesis
  proof cases
    case 1
    with assms(2) show ?thesis by simp
  next
    case 2
    have st: "status sr \<noteq> completed" using 2(2) by simp
    show ?thesis
    proof (cases "customer_confirmed sr")
      case True
      have a: "ledger_refs (process_commission e rid (mechanic_id sr) (or_zero (labor_cost sr))
              (update_request rid (\<lambda>r. finalized (now e) (r\<lparr>mechanic_confirmed := True\<rparr>)) d))"
        by (rule ledger_refs_settle [OF assms(2) 2(1) st]) simp_all
      have b: "ledger_refs (update_request rid (\<lambda>r. finalized (now e) (r\<lparr>mechanic_confirmed := True\<rparr>)) d)"
        by (rule ledger_refs_update_request [OF assms(2) 2(1) st]) simp
      from True 2(3) a b show ?thesis
        by (simp add: ledger_refs_same [OF transactions_insert_notification
              requests_insert_notification])
    next
      case False
      have "ledger_refs (update_request rid (\<lambda>r. r\<lparr>mechanic_confirmed := True\<rparr>) d)"
        by (rule ledger_refs_update_request [OF assms(2) 2(1) st]) simp
      with False 2(3) show ?thesis by simp
    qed
  qed
qed

lemma ledger_refs_toggle:
  "toggleAvailability e u d = (res, d') \<Longrightarrow> ledger_refs d \<Longrightarrow> ledger_refs d'"
  by (drule toggleAvailability_effect)
    (auto simp: ledger_refs_same [OF transactions_update_profile requests_update_profile])

lemma ledger_refs_location:
  "updateMechanicLocation e u la lo d = (res, d') \<Longrightarrow> ledger_refs d \<Longrightarrow> ledger_refs d'"
  by (drule updateMechanicLocation_effect)
    (auto simp: ledger_refs_def settled_only_completed_def at_most_one_commission_def
      commission_rows_def)

lemma ledger_refs_withdraw:
  assumes "withdrawFromWallet e u a bank d = (res, d')" "ledger_refs d"
  shows "ledger_refs d'"
proof -
  have tx: "wallet_transactions d' = wallet_transactions d
        \<or> (\<exists>t. transaction_type t \<noteq> commission_deduction
               \<and> wallet_transactions d' = wallet_transactions d @ [t])"
    and rq: "service_requests d' = service_requests d"
    using withdrawFromWallet_effect [OF assms(1)]
    by (auto simp: update_profile_def split: if_splits)
  from tx show ?thesis
  proof
    assume "wallet_transactions d' = wallet_transactions d"
    from ledger_refs_same [OF this rq] assms(2) show ?thesis by simp
  next
    assume "\<exists>t. transaction_type t \<noteq> commission_deduction
               \<and> wallet_transactions d' = wallet_transactions d @ [t]"
    then obtain t where "transaction_type t \<noteq> commission_deduction"
      "wallet_transactions d' = wallet_transactions d @ [t]" by blast
    from ledger_refs_append_other [OF assms(2) this rq] show ?thesis .
  qed
qed

lemma ledger_refs_step:
  assumes "ledger_refs d"
  shows "ledger_refs (step ec d)"
proof (rule step_preserves)
qed (use assms in \<open>blast intro: ledger_refs_create ledger_refs_cancel ledger_refs_complete_customer
      ledger_refs_accept ledger_refs_decline ledger_refs_arrived ledger_refs_complete_mechanic
      ledger_refs_toggle ledger_refs_location ledger_refs_withdraw\<close>)+

lemma ledger_refs_run: "ledger_refs d \<Longrightarrow> ledger_refs (run cs d)"
  unfolding run_def by (induction cs arbitrary: d) (auto simp: ledger_refs_step)

lemma ledger_refs_initial: "initial d \<Longrightarrow> ledger_refs d"
  by (simp add: initial_def ledger_refs_def settled_only_completed_def
      at_most_one_commission_def commission_rows_def)

subsection \<open>The commission lookup and the rating write\<close>

lemma process_commission_found:
  "single (commission_rows rid d) \<noteq> None \<Longrightarrow> \<not> fails e SelectTransaction \<Longrightarrow>
   process_commission e rid uid L d = d"
  by (auto simp: process_commission_def select_single_def)

lemma balances_update_average_rating:
  "map wallet_balance (mechanic_profiles (update_average_rating e uid d))
     = map wallet_balance (mechanic_profiles d)"
  by (simp add: update_average_rating_def update_profile_def Let_def comp_def)






subsection \<open>Rows in a terminal status\<close>

lemma update_request_nth:
  assumes "single (request_by_id rid d) = Some sr" "i < length (service_requests d)"
    "status (service_requests d ! i) \<noteq> status sr"
  shows "service_requests (update_request rid f d) ! i = service_requests d ! i"
proof -
  have flt: "filter (\<lambda>r. sr_id r = rid) (service_requests d) = [sr]"
    using assms(1) by (simp add: single_Some_iff request_by_id_def)
  have "sr_id (service_requests d ! i) \<noteq> rid"
  proof
    assume "sr_id (service_requests d ! i) = rid"
    with assms(2) have "service_requests d ! i \<in> set (filter (\<lambda>r. sr_id r = rid) (service_requests d))"
      by simp
    with flt assms(3) show False by simp
  qed
  with assms(2) show ?thesis by (simp add: requests_update_request)
qed

lemma keeps_row_frames:
  "keeps_row d i (insert_notification e n x) = keeps_row d i x"
  "keeps_row d i (process_commission e rid uid L x) = keeps_row d i x"
  "keeps_row d i (update_average_rating e uid x) = keeps_row d i x"
  "keeps_row d i (update_profile uid g x) = keeps_row d i x"
  by (simp_all add: keeps_row_def requests_insert_notification requests_process_commission
      requests_update_average_rating requests_update_profile)

lemma keeps_row_update:
  assumes "single (request_by_id rid d) = Some sr" "i < length (service_requests d)"
    "terminal (status (service_requests d ! i))" "\<not> terminal (status sr)"
  shows "keeps_row d i (update_request rid f d)"
proof -
  have "status (service_requests d ! i) \<noteq> status sr" using assms(3,4) by auto
  from update_request_nth [OF assms(1,2) this, of f] assms(2) show ?thesis
    by (simp add: keeps_row_def requests_update_request)
qed

lemma terminal_row_step:
  assumes i: "i < length (service_requests d)" and t: "terminal (status (service_requests d ! i))"
  shows "keeps_row d i (step ec d)"
proof -
  have same: "keeps_row d i d" using i by (simp add: keeps_row_def)
  note upd = keeps_row_update [OF _ i t]
  show ?thesis
  proof (rule step_preserves)
    fix e u b res d' assume "createServiceRequest e u b d = (res, d')"
    from createServiceRequest_effect [OF this] i show "keeps_row d i d'"
      by (auto simp: keeps_row_def requests_insert_notification nth_append)
  next
    fix e u rid res d' assume "cancelServiceRequest e u rid d = (res, d')"
    from cancelServiceRequest_effect [OF this] same show "keeps_row d i d'"
      by (auto simp: terminal_def keeps_row_frames intro!: upd)
  next
    fix e u rid b res d' assume "completeServiceRequest e u rid b d = (res, d')"
    from completeServiceRequest_effect [OF this] same show "keeps_row d i d'"
      by (auto simp: terminal_def keeps_row_frames intro!: upd)
  next
    fix e u rid res d' assume "acceptServiceRequest e u rid d = (res, d')"
    from acceptServiceRequest_effect [OF this] same show "keeps_row d i d'"
      by (auto simp: terminal_def keeps_row_frames intro!: upd)
  next
    fix e u rid res d' assume "declineServiceRequest e u rid d = (res, d')"
    from declineServiceRequest_effect [OF this] same show "keeps_row d i d'"
      by (auto simp: terminal_def keeps_row_frames intro!: upd)
  next
    fix e u rid res d' assume "markArrived e u rid d = (res, d')"
    from markArrived_effect [OF this] same show "keeps_row d i d'"
      by (auto simp: terminal_def keeps_row_frames intro!: upd)
  next
    fix e u rid res d' assume "completeServiceRequestMechanic e u rid d = (res, d')"
    from completeServiceRequestMechanic_effect [OF this] same show "keeps_row d i d'"
      by (auto simp: terminal_def keeps_row_frames intro!: upd)
  next
    fix e u res d' assume "toggleAvailability e u d = (res, d')"
    from toggleAvailability_effect [OF this] same show "keeps_row d i d'"
      by (auto simp: keeps_row_frames)
  next
    fix e u la lo res d' assume "updateMechanicLocation e u la lo d = (res, d')"
    from updateMechanicLocation_effect [OF this] i show "keeps_row d i d'"
      by (auto simp: keeps_row_def)
  next
    fix e u a bank res d' assume "withdrawFromWallet e u a bank d = (res, d')"
    from withdrawFromWallet_effect [OF this] i show "keeps_row d i d'"
      by (auto simp: keeps_row_def requests_update_profile split: if_splits)
  qed
qed

lemma terminal_row_run:
  "i < length (service_requests d) \<Longrightarrow> terminal (status (service_requests d ! i)) \<Longrightarrow>
   keeps_row d i (run cs d)"
proof (induction cs arbitrary: d)
  case Nil
  then show ?case by (simp add: run_def keeps_row_def)
next
  case (Cons c cs)
  from terminal_row_step [OF Cons.prems, of c]
  have k: "keeps_row d i (step c d)" .
  then have "i < length (service_requests (step c d))"
    "terminal (status (service_requests (step c d) ! i))"
    using Cons.prems by (simp_all add: keeps_row_def)
  from Cons.IH [OF this] k show ?case
    by (simp add: run_def keeps_row_def)
qed


subsection \<open>The provider of a request keeps a single profile row\<close>

lemma step_preserves_env:
  assumes create: "\<And>u b res d'. createServiceRequest e u b d = (res, d') \<Longrightarrow> P d'"
    and cancel: "\<And>u rid res d'. cancelServiceRequest e u rid d = (res, d') \<Longrightarrow> P d'"
    and customer: "\<And>u rid b res d'. completeServiceRequest e u rid b d = (res, d') \<Longrightarrow> P d'"
    and accept: "\<And>u rid res d'. acceptServiceRequest e u rid d = (res, d') \<Longrightarrow> P d'"
    and decline: "\<And>u rid res d'. declineServiceRequest e u rid d = (res, d') \<Longrightarrow> P d'"
    and arrived: "\<And>u rid res d'. markArrived e u rid d = (res, d') \<Longrightarrow> P d'"
    and mechanic: "\<And>u rid res d'. completeServiceRequestMechanic e u rid d = (res, d') \<Longrightarrow> P d'"
    and toggle: "\<And>u res d'. toggleAvailability e u d = (res, d') \<Longrightarrow> P d'"
    and location: "\<And>u la lo res d'. updateMechanicLocation e u la lo d = (res, d') \<Longrightarrow> P d'"
    and withdraw: "\<And>u a bank res d'. withdrawFromWallet e u a bank d = (res, d') \<Longrightarrow> P d'"
  shows "P (step (e, c) d)"
proof (cases c)
  case (Create u b)
  with create [OF surjective_pairing, of u b] show ?thesis by simp
next
  case (Cancel u rid)
  with cancel [OF surjective_pairing, of u rid] show ?thesis by simp
next
  case (CompleteCustomer u rid b)
  with customer [OF surjective_pairing, of u rid b] show ?thesis by simp
next
  case (Accept u rid)
  with accept [OF surjective_pairing, of u rid] show ?thesis by simp
next
  case (Decline u rid)
  with decline [OF surjective_pairing, of u rid] show ?thesis by simp
next
  case (Arrived u rid)
  with arrived [OF surjective_pairing, of u rid] show ?thesis by simp
next
  case (CompleteMechanic u rid)
  with mechanic [OF surjective_pairing, of u rid] show ?thesis by simp
next
  case (ToggleAvailability u)
  with toggle [OF surjective_pairing, of u] show ?thesis by simp
next
  case (UpdateLocation u la lo)
  with location [OF surjective_pairing, of u la lo] show ?thesis by simp
next
  case (Withdraw u a bank)
  with withdraw [OF surjective_pairing, of u a bank] show ?thesis by simp
qed










subsection \<open>Balance and ledger move together\<close>








subsection \<open>Which calls complete a request\<close>


lemma request_by_id_same:
  "service_requests d' = service_requests d \<Longrightarrow> request_by_id rid d' = request_by_id rid d"
  by (simp add: request_by_id_def)











subsection \<open>The rating follows the ratings read\<close>

lemma ratings_of_same:
  "service_requests d' = service_requests d \<Longrightarrow> ratings_of uid d' = ratings_of uid d"
  by (simp add: ratings_of_def)

lemma profile_ratings_same:
  "mechanic_profiles d' = mechanic_profiles d \<Longrightarrow> profile_ratings d' = profile_ratings d"
  by (simp add: profile_ratings_def)

lemma rating_current_same:
  "profile_ratings d' = profile_ratings d \<Longrightarrow> (\<And>uid. ratings_of uid d' = ratings_of uid d)
   \<Longrightarrow> rating_current d \<Longrightarrow> rating_current d'"
  by (simp add: rating_current_def)

lemma ratings_of_update_request:
  assumes "\<And>r. mechanic_id (f r) = mechanic_id r" "\<And>r. customer_rating (f r) = customer_rating r"
  shows "ratings_of uid (update_request rid f d) = ratings_of uid d"
proof -
  have "map (\<lambda>r. or_zero (customer_rating r))
          (filter (\<lambda>r. mechanic_id r = uid \<and> customer_rating r \<noteq> None)
             (map (\<lambda>r. if sr_id r = rid then f r else r) xs))
        = map (\<lambda>r. or_zero (customer_rating r))
          (filter (\<lambda>r. mechanic_id r = uid \<and> customer_rating r \<noteq> None) xs)" for xs
    using assms by (induction xs) auto
  then show ?thesis by (simp add: ratings_of_def update_request_def)
qed

lemma ratings_of_update_other:
  assumes sr: "single (request_by_id rid d) = Some sr" and uid: "uid \<noteq> mechanic_id sr"
    and f: "\<And>r. mechanic_id (f r) = mechanic_id r"
  shows "ratings_of uid (update_request rid f d) = ratings_of uid d"
proof -
  have flt: "filter (\<lambda>r. sr_id r = rid) (service_requests d) = [sr]"
    using sr by (simp add: single_Some_iff request_by_id_def)
  have eq: "r = sr" if "r \<in> set (service_requests d)" "sr_id r = rid" for r
  proof -
    from that have "r \<in> set (filter (\<lambda>r. sr_id r = rid) (service_requests d))" by simp
    with flt show ?thesis by simp
  qed
  have "filter (\<lambda>r. mechanic_id r = uid \<and> customer_rating r \<noteq> None)
          (map (\<lambda>r. if sr_id r = rid then f r else r) xs)
        = filter (\<lambda>r. mechanic_id r = uid \<and> customer_rating r \<noteq> None) xs"
    if "\<And>r. r \<in> set xs \<Longrightarrow> sr_id r = rid \<Longrightarrow> r = sr" for xs
    using that uid f by (induction xs) auto
  from this [of "service_requests d"] eq show ?thesis
    by (simp add: ratings_of_def update_request_def)
qed

lemma profile_ratings_update_profile:
  assumes "\<And>q. mp_user_id (g q) = mp_user_id q" "\<And>q. rating (g q) = rating q"
  shows "profile_ratings (update_profile uid g d) = profile_ratings d"
  using assms by (simp add: profile_ratings_def update_profile_def comp_def cong: map_cong)

lemma profile_ratings_process_commission:
  "profile_ratings (process_commission e rid uid L d) = profile_ratings d"
  using process_commission_profiles [of e rid uid L d]
  by (auto simp: profile_ratings_def comp_def cong: map_cong)

lemma foldl_ratings:
  "foldl (\<lambda>sum r. sum + or_zero (customer_rating r)) a xs
     = a + sum_list (map (\<lambda>r. or_zero (customer_rating r)) xs)"
  by (induction xs arbitrary: a) simp_all

lemma update_average_rating_no_failure:
  assumes "no_failure e" "ratings_of uid d \<noteq> []"
  shows "update_average_rating e uid d
           = update_profile uid (\<lambda>p. p\<lparr>rating := Some (average_rating (ratings_of uid d))\<rparr>) d"
  using assms
  by (simp add: update_average_rating_def Let_def no_failure_def ratings_of_def
      average_rating_def foldl_ratings)

lemma rating_current_recompute:
  assumes inv: "\<forall>ur \<in> set (profile_ratings d). fst ur \<noteq> m \<longrightarrow> ratings_of (fst ur) d \<noteq> [] \<longrightarrow>
                  snd ur = Some (average_rating (ratings_of (fst ur) d))"
    and nf: "no_failure e" and ne: "ratings_of m d \<noteq> []"
  shows "rating_current (update_average_rating e m d)"
  unfolding rating_current_def update_average_rating_no_failure [OF nf ne]
proof (intro ballI impI)
  let ?d' = "update_profile m (\<lambda>p. p\<lparr>rating := Some (average_rating (ratings_of m d))\<rparr>) d"
  fix ur assume ur: "ur \<in> set (profile_ratings ?d')" and "ratings_of (fst ur) ?d' \<noteq> []"
  then have r: "ratings_of (fst ur) d \<noteq> []"
    by (simp add: ratings_of_same [OF requests_update_profile])
  from ur obtain p where p: "p \<in> set (mechanic_profiles d)"
    and u: "ur = (if mp_user_id p = m
                  then (mp_user_id p, Some (average_rating (ratings_of m d)))
                  else (mp_user_id p, rating p))"
    by (auto simp: profile_ratings_def update_profile_def)
  show "snd ur = Some (average_rating (ratings_of (fst ur) ?d'))"
  proof (cases "mp_user_id p = m")
    case True
    with u show ?thesis by (simp add: ratings_of_same [OF requests_update_profile])
  next
    case False
    with p u have "ur \<in> set (profile_ratings d)" "fst ur \<noteq> m"
      by (auto simp: profile_ratings_def)
    with inv r show ?thesis by (simp add: ratings_of_same [OF requests_update_profile])
  qed
qed

lemma profile_ratings_frames:
  "profile_ratings (insert_notification e n x) = profile_ratings x"
  "profile_ratings (update_request rid f x) = profile_ratings x"
  "profile_ratings (process_commission e rid uid L x) = profile_ratings x"
  by (simp_all add: profile_ratings_same [OF profiles_insert_notification]
      profile_ratings_same [OF profiles_update_request] profile_ratings_process_commission)

lemma ratings_of_frames:
  "ratings_of u (insert_notification e n x) = ratings_of u x"
  "ratings_of u (process_commission e rid uid L x) = ratings_of u x"
  "ratings_of u (update_profile uid g x) = ratings_of u x"
  by (simp_all add: ratings_of_same [OF requests_insert_notification]
      ratings_of_same [OF requests_process_commission] ratings_of_same [OF requests_update_profile])

lemma rating_current_unrated_update:
  assumes "rating_current d" "\<And>r. mechanic_id (f r) = mechanic_id r"
    "\<And>r. customer_rating (f r) = customer_rating r"
  shows "rating_current (update_request rid f d)"
  using assms(1)
  by (simp add: rating_current_def profile_ratings_frames ratings_of_update_request [OF assms(2,3)])

lemma rating_current_complete_customer:
  assumes inv: "rating_current d" and nf: "no_failure e"
    and h: "completeServiceRequest e u rid b d = (res, d')"
  shows "rating_current d'"
proof -
  from completeServiceRequest_effect [OF h]
  consider "d' = d"
    | sr M L R where "single (request_by_id rid d) = Some sr"
      "d' = update_average_rating e (mechanic_id sr)
              ((if mechanic_confirmed sr
                then process_commission e rid (mechanic_id sr) L else (\<lambda>x. x))
                 (update_request rid
                    (\<lambda>r. if mechanic_confirmed sr
                         then finalized (now e) (customer_confirmation M L R (body_review b) r)
                         else customer_confirmation M L R (body_review b) r) d))"
    by blast
  then show ?thesis
  proof cases
    case 1
    with inv show ?thesis by simp
  next
    case 2
    let ?m = "mechanic_id sr"
    let ?f = "\<lambda>r. if mechanic_confirmed sr
                   then finalized (now e) (customer_confirmation M L R (body_review b) r)
                   else customer_confirmation M L R (body_review b) r"
    let ?d1 = "update_request rid ?f d"
    let ?d2 = "(if mechanic_confirmed sr
                then process_commission e rid ?m L else (\<lambda>x. x)) ?d1"
    have mf: "mechanic_id (?f r) = mechanic_id r" for r
      by (simp add: customer_confirmation_def finalized_def)
    have pr: "profile_ratings ?d2 = profile_ratings d"
      by (simp add: profile_ratings_frames)
    have ro: "ratings_of uid ?d2 = ratings_of uid ?d1" for uid
      by (simp add: ratings_of_frames)
    have other: "\<forall>ur \<in> set (profile_ratings ?d2). fst ur \<noteq> ?m \<longrightarrow>
                   ratings_of (fst ur) ?d2 \<noteq> [] \<longrightarrow>
                   snd ur = Some (average_rating (ratings_of (fst ur) ?d2))"
    proof (intro ballI impI)
      fix ur assume a: "ur \<in> set (profile_ratings ?d2)" "fst ur \<noteq> ?m"
        "ratings_of (fst ur) ?d2 \<noteq> []"
      from ratings_of_update_other [OF 2(1) a(2), of ?f] mf
      have "ratings_of (fst ur) ?d1 = ratings_of (fst ur) d" by simp
      with a inv pr ro show "snd ur = Some (average_rating (ratings_of (fst ur) ?d2))"
        by (simp add: rating_current_def)
    qed
    have "sr \<in> set (service_requests d)" "sr_id sr = rid"
      using single_request_in [OF 2(1)] by simp_all
    then have "?f sr \<in> (\<lambda>r. if sr_id r = rid then ?f r else r) ` set (service_requests d)"
      by (intro image_eqI [where x = sr]) simp_all
    then have "?f sr \<in> set (service_requests ?d1)"
      by (simp add: requests_update_request)
    moreover have "mechanic_id (?f sr) = ?m \<and> customer_rating (?f sr) \<noteq> None"
      by (simp add: customer_confirmation_def finalized_def)
    ultimately have "?f sr \<in> set (filter (\<lambda>r. mechanic_id r = ?m \<and> customer_rating r \<noteq> None)
                                    (service_requests ?d1))"
      by simp
    then have "0 < length (filter (\<lambda>r. mechanic_id r = ?m \<and> customer_rating r \<noteq> None)
                             (service_requests ?d1))"
      by (rule length_pos_if_in_set)
    then have "ratings_of ?m ?d1 \<noteq> []"
      unfolding ratings_of_def by fastforce
    then have ne: "ratings_of ?m ?d2 \<noteq> []" by (simp add: ro)
    from rating_current_recompute [OF other nf ne] 2(2) show ?thesis by simp
  qed
qed

lemma rating_current_keep:
  assumes "rating_current d"
    and "profile_ratings d' = profile_ratings d \<and> (\<forall>uid. ratings_of uid d' = ratings_of uid d)"
  shows "rating_current d'"
  using assms by (simp add: rating_current_def)

lemma ratings_of_append_unrated:
  "customer_rating r = None \<Longrightarrow>
   ratings_of uid (d\<lparr>service_requests := service_requests d @ [r]\<rparr>) = ratings_of uid d"
  by (simp add: ratings_of_def)

lemma profile_ratings_requests:
  "profile_ratings (d\<lparr>service_requests := xs\<rparr>) = profile_ratings d"
  by (simp add: profile_ratings_def)

lemma profile_ratings_users: "profile_ratings (d\<lparr>users := us\<rparr>) = profile_ratings d"
  by (simp add: profile_ratings_def)

lemma ratings_of_users: "ratings_of uid (d\<lparr>users := us\<rparr>) = ratings_of uid d"
  by (simp add: ratings_of_def)

lemma profile_ratings_transactions:
  "profile_ratings (d\<lparr>wallet_transactions := ts\<rparr>) = profile_ratings d"
  by (simp add: profile_ratings_def)

lemma ratings_of_transactions:
  "ratings_of uid (d\<lparr>wallet_transactions := ts\<rparr>) = ratings_of uid d"
  by (simp add: ratings_of_def)

lemma rating_kept_create:
  assumes "createServiceRequest e u b d = (res, d')"
  shows "profile_ratings d' = profile_ratings d \<and> (\<forall>uid. ratings_of uid d' = ratings_of uid d)"
  using createServiceRequest_effect [OF assms]
  by (auto simp: profile_ratings_frames ratings_of_frames ratings_of_append_unrated profile_ratings_requests)

lemma rating_kept_cancel:
  assumes "cancelServiceRequest e u rid d = (res, d')"
  shows "profile_ratings d' = profile_ratings d \<and> (\<forall>uid. ratings_of uid d' = ratings_of uid d)"
  using cancelServiceRequest_effect [OF assms]
  by (auto simp: profile_ratings_frames ratings_of_frames ratings_of_update_request)

lemma rating_kept_accept:
  assumes "acceptServiceRequest e u rid d = (res, d')"
  shows "profile_ratings d' = profile_ratings d \<and> (\<forall>uid. ratings_of uid d' = ratings_of uid d)"
  using acceptServiceRequest_effect [OF assms]
  by (auto simp: profile_ratings_frames ratings_of_frames ratings_of_update_request)

lemma rating_kept_decline:
  assumes "declineServiceRequest e u rid d = (res, d')"
  shows "profile_ratings d' = profile_ratings d \<and> (\<forall>uid. ratings_of uid d' = ratings_of uid d)"
  using declineServiceRequest_effect [OF assms]
  by (auto simp: profile_ratings_frames ratings_of_frames ratings_of_update_request)

lemma rating_kept_arrived:
  assumes "markArrived e u rid d = (res, d')"
  shows "profile_ratings d' = profile_ratings d \<and> (\<forall>uid. ratings_of uid d' = ratings_of uid d)"
  using markArrived_effect [OF assms]
  by (auto simp: profile_ratings_frames ratings_of_frames ratings_of_update_request)

lemma rating_kept_mechanic:
  assumes "completeServiceRequestMechanic e u rid d = (res, d')"
  shows "profile_ratings d' = profile_ratings d \<and> (\<forall>uid. ratings_of uid d' = ratings_of uid d)"
  using completeServiceRequestMechanic_effect [OF assms]
  by (auto simp: profile_ratings_frames ratings_of_frames ratings_of_update_request finalized_def)

lemma rating_kept_toggle:
  assumes "toggleAvailability e u d = (res, d')"
  shows "profile_ratings d' = profile_ratings d \<and> (\<forall>uid. ratings_of uid d' = ratings_of uid d)"
  using toggleAvailability_effect [OF assms]
  by (auto simp: profile_ratings_update_profile ratings_of_frames)

lemma rating_kept_location:
  assumes "updateMechanicLocation e u la lo d = (res, d')"
  shows "profile_ratings d' = profile_ratings d \<and> (\<forall>uid. ratings_of uid d' = ratings_of uid d)"
  using updateMechanicLocation_effect [OF assms]
  by (auto simp: profile_ratings_users ratings_of_users)

lemma rating_kept_withdraw:
  assumes "withdrawFromWallet e u a bank d = (res, d')"
  shows "profile_ratings d' = profile_ratings d \<and> (\<forall>uid. ratings_of uid d' = ratings_of uid d)"
  using withdrawFromWallet_effect [OF assms]
  by (auto simp: profile_ratings_update_profile ratings_of_frames profile_ratings_transactions
      ratings_of_transactions split: if_splits)

lemma rating_current_step:
  assumes inv: "rating_current d" and nf: "no_failure e"
  shows "rating_current (step (e, c) d)"
proof (rule step_preserves_env)
  fix u rid b res d' assume "completeServiceRequest e u rid b d = (res, d')"
  from rating_current_complete_customer [OF inv nf this] show "rating_current d'" .
qed (rule rating_current_keep [OF inv], erule rating_kept_create rating_kept_cancel
      rating_kept_accept rating_kept_decline rating_kept_arrived rating_kept_mechanic
      rating_kept_toggle rating_kept_location rating_kept_withdraw)+

lemma rating_current_run:
  "rating_current d \<Longrightarrow> no_failures cs \<Longrightarrow> rating_current (run cs d)"
proof (induction cs arbitrary: d)
  case Nil
  then show ?case by (simp add: run_def)
next
  case (Cons ec cs)
  obtain e c where ec: "ec = (e, c)" by (cases ec)
  from Cons.prems(2) ec have "no_failure e" "no_failures cs"
    by (simp_all add: no_failures_def)
  with Cons.IH [of "step (e, c) d"] rating_current_step [OF Cons.prems(1), of e c] ec
  show ?case by (simp add: run_def)
qed

lemma rating_current_initial: "initial d \<Longrightarrow> rating_current d"
  by (simp add: initial_def rating_current_def ratings_of_def)

section \<open>Balance consistency\<close>




section \<open>Settlement on completion\<close>




section \<open>Idempotent commission\<close>

text \<open>
  C3. In every state reached from a fresh deployment by any sequence of calls, at most
  one commission row refers to a given request. Each completion handler looks the
  commission row of the request up before it settles: when the lookup finds the row, the
  call appends no ledger row and leaves every wallet balance as it was.
\<close>

theorem commission_at_most_once:
  "(initial d0 \<longrightarrow> length (commission_rows rid (run cs d0)) \<le> 1)
   \<and> (single (commission_rows rid d) \<noteq> None \<and> \<not> fails e SelectTransaction \<longrightarrow>
        wallet_transactions (snd (completeServiceRequest e u rid b d)) = wallet_transactions d
        \<and> map wallet_balance (mechanic_profiles (snd (completeServiceRequest e u rid b d)))
            = map wallet_balance (mechanic_profiles d)
        \<and> wallet_transactions (snd (completeServiceRequestMechanic e u' rid d))
            = wallet_transactions d
        \<and> map wallet_balance (mechanic_profiles (snd (completeServiceRequestMechanic e u' rid d)))
            = map wallet_balance (mechanic_profiles d))"
proof (intro conjI impI)
  assume "initial d0"
  then have "ledger_refs (run cs d0)"
    by (simp add: ledger_refs_initial ledger_refs_run)
  then show "length (commission_rows rid (run cs d0)) \<le> 1"
    by (simp add: ledger_refs_def at_most_one_commission_def)
next
  assume found: "single (commission_rows rid d) \<noteq> None \<and> \<not> fails e SelectTransaction"
  have pc: "process_commission e rid uid L (update_request rid f d) = update_request rid f d"
    for uid L f
    using found
    by (intro process_commission_found)
      (simp_all add: commission_rows_same [OF transactions_update_request])
  obtain res d' where c: "completeServiceRequest e u rid b d = (res, d')"
    by (cases "completeServiceRequest e u rid b d")
  from completeServiceRequest_effect [OF c]
  have "wallet_transactions d' = wallet_transactions d
        \<and> map wallet_balance (mechanic_profiles d') = map wallet_balance (mechanic_profiles d)"
    by (auto simp: pc transactions_update_average_rating balances_update_average_rating
        transactions_update_request profiles_update_request)
  with c show "wallet_transactions (snd (completeServiceRequest e u rid b d)) = wallet_transactions d"
    and "map wallet_balance (mechanic_profiles (snd (completeServiceRequest e u rid b d)))
            = map wallet_balance (mechanic_profiles d)"
    by simp_all
  obtain res' d'' where m: "completeServiceRequestMechanic e u' rid d = (res', d'')"
    by (cases "completeServiceRequestMechanic e u' rid d")
  from completeServiceRequestMechanic_effect [OF m]
  have "wallet_transactions d'' = wallet_transactions d
        \<and> map wallet_balance (mechanic_profiles d'') = map wallet_balance (mechanic_profiles d)"
    by (auto simp: pc transactions_insert_notification profiles_insert_notification
        transactions_update_request profiles_update_request)
  with m show "wallet_transactions (snd (completeServiceRequestMechanic e u' rid d))
            = wallet_transactions d"
    and "map wallet_balance (mechanic_profiles (snd (completeServiceRequestMechanic e u' rid d)))
            = map wallet_balance (mechanic_profiles d)"
    by simp_all
qed

theorem commission_at_most_once_witness:
  "initial db0
   \<and> length (commission_rows ''r1'' (run settle_calls db0)) = 1
   \<and> length (commission_rows ''r1'' (run settle_calls db0)) \<le> 1
   \<and> single (commission_rows ''r1'' db_logged) \<noteq> None \<and> \<not> fails env0 SelectTransaction
   \<and> map status (service_requests (snd (completeServiceRequest env0 (Some ''c1'') ''r1''
          (pay (JNum 50) (JNum 100) (JNum 5)) db_logged))) = [completed]
   \<and> wallet_transactions (snd (completeServiceRequest env0 (Some ''c1'') ''r1''
          (pay (JNum 50) (JNum 100) (JNum 5)) db_logged)) = wallet_transactions db_logged
   \<and> map wallet_balance (mechanic_profiles (snd (completeServiceRequest env0 (Some ''c1'') ''r1''
          (pay (JNum 50) (JNum 100) (JNum 5)) db_logged)))
       = map wallet_balance (mechanic_profiles db_logged)"
proof -
  have i: "initial db0"
    by (simp add: initial_def db0_def profile0_def or_zero_def)
  have n: "length (commission_rows ''r1'' (run settle_calls db0)) = 1"
    by code_simp
  have f: "single (commission_rows ''r1'' db_logged) \<noteq> None"
    by code_simp
  have g: "\<not> fails env0 SelectTransaction"
    by (simp add: env0_def)
  have s: "map status (service_requests (snd (completeServiceRequest env0 (Some ''c1'') ''r1''
          (pay (JNum 50) (JNum 100) (JNum 5)) db_logged))) = [completed]"
    by code_simp
  from commission_at_most_once [of db0 "''r1''" settle_calls db_logged env0 "Some ''c1''"
      "pay (JNum 50) (JNum 100) (JNum 5)" "Some ''m1''"] i n f g s
  show ?thesis by simp
qed

section \<open>Dual confirmation\<close>

text \<open>
  C4. On a request that is \<open>in_progress\<close>, the completion call of either party (accepted
  by the guards that come before the write) sets that party's confirmation flag and leaves
  the other flag alone. The status becomes \<open>completed\<close>, and the completion time is
  stamped, exactly when the other party's flag was already set; otherwise the status stays
  \<open>in_progress\<close> and the completion time is left as it was.
\<close>

theorem dual_confirmation:
  assumes "single (request_by_id rid d) = Some sr" and "status sr = in_progress"
    and "\<not> fails e SelectRequest" and "\<not> fails e UpdateRequest"
  shows "(customer_id sr \<noteq> [] \<and> truthy (body_material_cost b) \<and> truthy (body_labor_cost b)
            \<and> truthy (body_rating b) \<and> parseFloat (body_material_cost b) \<noteq> None
            \<and> parseFloat (body_labor_cost b) \<noteq> None
            \<and> (\<exists>R. parseInt (body_rating b) = Some R \<and> 1 \<le> R \<and> R \<le> 5) \<longrightarrow>
          (\<exists>sr'. fst (completeServiceRequest e (Some (customer_id sr)) rid b d) = Inr (Some sr')
             \<and> single (request_by_id rid
                  (snd (completeServiceRequest e (Some (customer_id sr)) rid b d))) = Some sr'
             \<and> customer_confirmed sr' \<and> mechanic_confirmed sr' = mechanic_confirmed sr
             \<and> (status sr' = completed \<longleftrightarrow> mechanic_confirmed sr)
             \<and> (status sr' = in_progress \<longleftrightarrow> \<not> mechanic_confirmed sr)
             \<and> completed_at sr'
                 = (if mechanic_confirmed sr then Some (now e) else completed_at sr)))
       \<and> (mechanic_id sr \<noteq> [] \<longrightarrow>
          (\<exists>sr'. fst (completeServiceRequestMechanic e (Some (mechanic_id sr)) rid d)
                    = Inr (Some sr')
             \<and> single (request_by_id rid
                  (snd (completeServiceRequestMechanic e (Some (mechanic_id sr)) rid d))) = Some sr'
             \<and> mechanic_confirmed sr' \<and> customer_confirmed sr' = customer_confirmed sr
             \<and> (status sr' = completed \<longleftrightarrow> customer_confirmed sr)
             \<and> (status sr' = in_progress \<longleftrightarrow> \<not> customer_confirmed sr)
             \<and> completed_at sr'
                 = (if customer_confirmed sr then Some (now e) else completed_at sr)))"
proof -
  have sel: "select_single e SelectRequest (request_by_id rid d) = Some sr"
    using assms by (simp add: select_single_def)
  have rid: "sr_id sr = rid"
    using assms(1) by (simp add: single_request_in)
  show ?thesis
  proof (intro conjI impI)
    assume v: "customer_id sr \<noteq> [] \<and> truthy (body_material_cost b) \<and> truthy (body_labor_cost b)
            \<and> truthy (body_rating b) \<and> parseFloat (body_material_cost b) \<noteq> None
            \<and> parseFloat (body_labor_cost b) \<noteq> None
            \<and> (\<exists>R. parseInt (body_rating b) = Some R \<and> 1 \<le> R \<and> R \<le> 5)"
    then obtain M L R where p: "parseFloat (body_material_cost b) = Some M"
      "parseFloat (body_labor_cost b) = Some L" "parseInt (body_rating b) = Some R"
      "1 \<le> R" "R \<le> 5"
      by auto
    define f where "f = (\<lambda>r. if mechanic_confirmed sr
                            then finalized (now e) (customer_confirmation M L R (body_review b) r)
                            else customer_confirmation M L R (body_review b) r)"
    have res: "fst (completeServiceRequest e (Some (customer_id sr)) rid b d)
                 = Inr (single (request_by_id rid (update_request rid f d)))"
      and req: "service_requests (snd (completeServiceRequest e (Some (customer_id sr)) rid b d))
                 = service_requests (update_request rid f d)"
      using v p sel assms(2,4)
      by (simp_all add: completeServiceRequest_def Let_def f_def requests_update_average_rating
          requests_process_commission)
    have s: "single (request_by_id rid (update_request rid f d)) = Some (f sr)"
      using update_request_single [OF assms(1), of f] rid by (simp add: f_def)
    have "single (request_by_id rid
            (snd (completeServiceRequest e (Some (customer_id sr)) rid b d))) = Some (f sr)"
      using s req by (simp add: request_by_id_def)
    moreover have "customer_confirmed (f sr) \<and> mechanic_confirmed (f sr) = mechanic_confirmed sr
             \<and> (status (f sr) = completed \<longleftrightarrow> mechanic_confirmed sr)
             \<and> (status (f sr) = in_progress \<longleftrightarrow> \<not> mechanic_confirmed sr)
             \<and> completed_at (f sr)
                 = (if mechanic_confirmed sr then Some (now e) else completed_at sr)"
      using assms(2) by (simp add: f_def customer_confirmation_def finalized_def)
    ultimately show "\<exists>sr'. fst (completeServiceRequest e (Some (customer_id sr)) rid b d) = Inr (Some sr')
             \<and> single (request_by_id rid
                  (snd (completeServiceRequest e (Some (customer_id sr)) rid b d))) = Some sr'
             \<and> customer_confirmed sr' \<and> mechanic_confirmed sr' = mechanic_confirmed sr
             \<and> (status sr' = completed \<longleftrightarrow> mechanic_confirmed sr)
             \<and> (status sr' = in_progress \<longleftrightarrow> \<not> mechanic_confirmed sr)
             \<and> completed_at sr'
                 = (if mechanic_confirmed sr then Some (now e) else completed_at sr)"
      using res s by simp
  next
    assume v: "mechanic_id sr \<noteq> []"
    define g where "g = (\<lambda>r. if customer_confirmed sr
                            then finalized (now e) (r\<lparr>mechanic_confirmed := True\<rparr>)
                            else r\<lparr>mechanic_confirmed := True\<rparr>)"
    have res: "fst (completeServiceRequestMechanic e (Some (mechanic_id sr)) rid d)
                 = Inr (single (request_by_id rid (update_request rid g d)))"
      and req: "service_requests (snd (completeServiceRequestMechanic e (Some (mechanic_id sr)) rid d))
                 = service_requests (update_request rid g d)"
      using v sel assms(2,4)
      by (simp_all add: completeServiceRequestMechanic_def Let_def g_def
          requests_insert_notification requests_process_commission)
    have s: "single (request_by_id rid (update_request rid g d)) = Some (g sr)"
      using update_request_single [OF assms(1), of g] rid by (simp add: g_def finalized_def)
    have "single (request_by_id rid
            (snd (completeServiceRequestMechanic e (Some (mechanic_id sr)) rid d))) = Some (g sr)"
      using s req by (simp add: request_by_id_def)
    moreover have "mechanic_confirmed (g sr) \<and> customer_confirmed (g sr) = customer_confirmed sr
             \<and> (status (g sr) = completed \<longleftrightarrow> customer_confirmed sr)
             \<and> (status (g sr) = in_progress \<longleftrightarrow> \<not> customer_confirmed sr)
             \<and> completed_at (g sr)
                 = (if customer_confirmed sr then Some (now e) else completed_at sr)"
      using assms(2) by (simp add: g_def finalized_def)
    ultimately show "\<exists>sr'. fst (completeServiceRequestMechanic e (Some (mechanic_id sr)) rid d)
                    = Inr (Some sr')
             \<and> single (request_by_id rid
                  (snd (completeServiceRequestMechanic e (Some (mechanic_id sr)) rid d))) = Some sr'
             \<and> mechanic_confirmed sr' \<and> customer_confirmed sr' = customer_confirmed sr
             \<and> (status sr' = completed \<longleftrightarrow> customer_confirmed sr)
             \<and> (status sr' = in_progress \<longleftrightarrow> \<not> customer_confirmed sr)
             \<and> completed_at sr'
                 = (if customer_confirmed sr then Some (now e) else completed_at sr)"
      using res s by simp
  qed
qed

theorem dual_confirmation_witness:
  "single (request_by_id ''r1'' (run to_in_progress db0)) = Some request0
   \<and> status request0 = in_progress
   \<and> \<not> fails env0 SelectRequest \<and> \<not> fails env0 UpdateRequest
   \<and> (\<exists>sr'. fst (completeServiceRequestMechanic env0 (Some ''m1'') ''r1''
                    (run to_in_progress db0)) = Inr (Some sr')
          \<and> mechanic_confirmed sr' \<and> \<not> customer_confirmed sr' \<and> status sr' = in_progress)
   \<and> (\<exists>sr'. fst (completeServiceRequest env0 (Some ''c1'') ''r1''
                    (pay (JNum 50) (JNum 100) (JNum 5))
                    (run (to_in_progress @ [(env0, CompleteMechanic (Some ''m1'') ''r1'')]) db0))
                  = Inr (Some sr')
          \<and> mechanic_confirmed sr' \<and> customer_confirmed sr' \<and> status sr' = completed
          \<and> completed_at sr' = Some (now env0))"
proof -
  let ?d1 = "run to_in_progress db0"
  let ?d2 = "run (to_in_progress @ [(env0, CompleteMechanic (Some ''m1'') ''r1'')]) db0"
  let ?b = "pay (JNum 50) (JNum 100) (JNum 5)"
  have h1: "single (request_by_id ''r1'' ?d1) = Some request0"
    by code_simp
  have h2: "single (request_by_id ''r1'' ?d2) = Some (request0\<lparr>mechanic_confirmed := True\<rparr>)"
    by code_simp
  have st: "status request0 = in_progress" "mechanic_id request0 = ''m1''"
    "customer_id request0 = ''c1''" "\<not> customer_confirmed request0"
    by (simp_all add: request0_def)
  have nf: "\<not> fails env0 SelectRequest" "\<not> fails env0 UpdateRequest"
    by (simp_all add: env0_def)
  have v: "truthy (body_material_cost ?b) \<and> truthy (body_labor_cost ?b) \<and> truthy (body_rating ?b)
           \<and> parseFloat (body_material_cost ?b) \<noteq> None \<and> parseFloat (body_labor_cost ?b) \<noteq> None
           \<and> (\<exists>R. parseInt (body_rating ?b) = Some R \<and> 1 \<le> R \<and> R \<le> 5)"
    by (simp add: pay_def)
  from dual_confirmation [OF h1 st(1) nf, of ?b] st
  have a: "\<exists>sr'. fst (completeServiceRequestMechanic env0 (Some ''m1'') ''r1'' ?d1) = Inr (Some sr')
          \<and> mechanic_confirmed sr' \<and> \<not> customer_confirmed sr' \<and> status sr' = in_progress"
    by auto
  from dual_confirmation [OF h2 _ nf, of ?b] st v
  have b: "\<exists>sr'. fst (completeServiceRequest env0 (Some ''c1'') ''r1'' ?b ?d2) = Inr (Some sr')
          \<and> mechanic_confirmed sr' \<and> customer_confirmed sr' \<and> status sr' = completed
          \<and> completed_at sr' = Some (now env0)"
    by auto
  from h1 st(1) nf a b show ?thesis by blast
qed

section \<open>Monotonic lifecycle\<close>

text \<open>
  C5. A request row whose status is \<open>completed\<close> or \<open>cancelled\<close> is the same row after any
  sequence of calls. A call that addresses a request whose status is not one its
  transition starts from (pending for accept and decline, accepted for arrive,
  \<open>in_progress\<close> for both completion calls, pending or accepted for cancel) is answered by
  an error and leaves the store unchanged; when the caller is the party of the request and
  the guards before the status test pass, that error is the handler's 400 status error.
\<close>

theorem terminal_status_is_final:
  "(i < length (service_requests d) \<and> terminal (status (service_requests d ! i)) \<longrightarrow>
      i < length (service_requests (run cs d))
      \<and> service_requests (run cs d) ! i = service_requests d ! i)
   \<and> (target c = Some rid \<and> single (request_by_id rid d) = Some sr \<and> status sr \<notin> allowed c \<longrightarrow>
      rejected (e, c) d \<and> step (e, c) d = d)
   \<and> (single (request_by_id rid d) = Some sr \<and> \<not> fails e SelectRequest \<longrightarrow>
      (customer_id sr \<noteq> [] \<and> status sr \<noteq> pending \<and> status sr \<noteq> accepted \<longrightarrow>
         cancelServiceRequest e (Some (customer_id sr)) rid d
           = (Inl (CustomError ''Cannot cancel request in current status'' 400), d))
      \<and> (mechanic_id sr \<noteq> [] \<and> status sr \<noteq> pending
          \<and> (\<exists>p. select_single e SelectProfile (profile_by_user (mechanic_id sr) d) = Some p
                 \<and> is_available p) \<longrightarrow>
         acceptServiceRequest e (Some (mechanic_id sr)) rid d
           = (Inl (CustomError ''Service request is not pending'' 400), d))
      \<and> (mechanic_id sr \<noteq> [] \<and> status sr \<noteq> pending \<longrightarrow>
         declineServiceRequest e (Some (mechanic_id sr)) rid d
           = (Inl (CustomError ''Service request is not pending'' 400), d))
      \<and> (mechanic_id sr \<noteq> [] \<and> status sr \<noteq> accepted \<longrightarrow>
         markArrived e (Some (mechanic_id sr)) rid d
           = (Inl (CustomError ''Service request must be accepted first'' 400), d))
      \<and> (mechanic_id sr \<noteq> [] \<and> status sr \<noteq> in_progress \<longrightarrow>
         completeServiceRequestMechanic e (Some (mechanic_id sr)) rid d
           = (Inl (CustomError ''Service request must be in progress'' 400), d))
      \<and> (customer_id sr \<noteq> [] \<and> status sr \<noteq> in_progress
          \<and> truthy (body_material_cost b) \<and> truthy (body_labor_cost b) \<and> truthy (body_rating b)
          \<and> parseFloat (body_material_cost b) \<noteq> None \<and> parseFloat (body_labor_cost b) \<noteq> None
          \<and> (\<exists>R. parseInt (body_rating b) = Some R \<and> 1 \<le> R \<and> R \<le> 5) \<longrightarrow>
         completeServiceRequest e (Some (customer_id sr)) rid b d
           = (Inl (CustomError ''Service request is not in progress'' 400), d)))"
proof (intro conjI impI)
  assume "i < length (service_requests d) \<and> terminal (status (service_requests d ! i))"
  then have "keeps_row d i (run cs d)" by (simp add: terminal_row_run)
  then show "i < length (service_requests (run cs d))"
    and "service_requests (run cs d) ! i = service_requests d ! i"
    by (simp_all add: keeps_row_def)
next
  assume a: "target c = Some rid \<and> single (request_by_id rid d) = Some sr \<and> status sr \<notin> allowed c"
  then have sr: "single (request_by_id rid d) = Some sr" and na: "status sr \<notin> allowed c"
    and tg: "target c = Some rid" by simp_all
  have "rejected (e, c) d \<and> step (e, c) d = d"
  proof (cases c)
    case (Cancel u r)
    obtain res d' where h: "cancelServiceRequest e u r d = (res, d')"
      by (cases "cancelServiceRequest e u r d")
    from cancelServiceRequest_effect [OF h] sr na tg Cancel h show ?thesis by auto
  next
    case (CompleteCustomer u r b')
    obtain res d' where h: "completeServiceRequest e u r b' d = (res, d')"
      by (cases "completeServiceRequest e u r b' d")
    from completeServiceRequest_effect [OF h] sr na tg CompleteCustomer h show ?thesis by auto
  next
    case (Accept u r)
    obtain res d' where h: "acceptServiceRequest e u r d = (res, d')"
      by (cases "acceptServiceRequest e u r d")
    from acceptServiceRequest_effect [OF h] sr na tg Accept h show ?thesis by auto
  next
    case (Decline u r)
    obtain res d' where h: "declineServiceRequest e u r d = (res, d')"
      by (cases "declineServiceRequest e u r d")
    from declineServiceRequest_effect [OF h] sr na tg Decline h show ?thesis by auto
  next
    case (Arrived u r)
    obtain res d' where h: "markArrived e u r d = (res, d')"
      by (cases "markArrived e u r d")
    from markArrived_effect [OF h] sr na tg Arrived h show ?thesis by auto
  next
    case (CompleteMechanic u r)
    obtain res d' where h: "completeServiceRequestMechanic e u r d = (res, d')"
      by (cases "completeServiceRequestMechanic e u r d")
    from completeServiceRequestMechanic_effect [OF h] sr na tg CompleteMechanic h show ?thesis
      by auto
  qed (use tg in simp_all)
  then show "rejected (e, c) d" and "step (e, c) d = d" by simp_all
next
  assume "single (request_by_id rid d) = Some sr \<and> \<not> fails e SelectRequest"
  then have sel: "select_single e SelectRequest (request_by_id rid d) = Some sr"
    by (simp add: select_single_def)
  {
    assume "customer_id sr \<noteq> [] \<and> status sr \<noteq> pending \<and> status sr \<noteq> accepted"
    with sel show "cancelServiceRequest e (Some (customer_id sr)) rid d
           = (Inl (CustomError ''Cannot cancel request in current status'' 400), d)"
      by (simp add: cancelServiceRequest_def)
  next
    assume "mechanic_id sr \<noteq> [] \<and> status sr \<noteq> pending
          \<and> (\<exists>p. select_single e SelectProfile (profile_by_user (mechanic_id sr) d) = Some p
                 \<and> is_available p)"
    with sel show "acceptServiceRequest e (Some (mechanic_id sr)) rid d
           = (Inl (CustomError ''Service request is not pending'' 400), d)"
      by (auto simp: acceptServiceRequest_def)
  next
    assume "mechanic_id sr \<noteq> [] \<and> status sr \<noteq> pending"
    with sel show "declineServiceRequest e (Some (mechanic_id sr)) rid d
           = (Inl (CustomError ''Service request is not pending'' 400), d)"
      by (simp add: declineServiceRequest_def)
  next
    assume "mechanic_id sr \<noteq> [] \<and> status sr \<noteq> accepted"
    with sel show "markArrived e (Some (mechanic_id sr)) rid d
           = (Inl (CustomError ''Service request must be accepted first'' 400), d)"
      by (simp add: markArrived_def)
  next
    assume "mechanic_id sr \<noteq> [] \<and> status sr \<noteq> in_progress"
    with sel show "completeServiceRequestMechanic e (Some (mechanic_id sr)) rid d
           = (Inl (CustomError ''Service request must be in progress'' 400), d)"
      by (simp add: completeServiceRequestMechanic_def)
  next
    assume "customer_id sr \<noteq> [] \<and> status sr \<noteq> in_progress
          \<and> truthy (body_material_cost b) \<and> truthy (body_labor_cost b) \<and> truthy (body_rating b)
          \<and> parseFloat (body_material_cost b) \<noteq> None \<and> parseFloat (body_labor_cost b) \<noteq> None
          \<and> (\<exists>R. parseInt (body_rating b) = Some R \<and> 1 \<le> R \<and> R \<le> 5)"
    with sel show "completeServiceRequest e (Some (customer_id sr)) rid b d
           = (Inl (CustomError ''Service request is not in progress'' 400), d)"
      by (auto simp: completeServiceRequest_def)
  }
qed

theorem terminal_status_is_final_witness:
  "single (request_by_id ''r1'' db_cancelled) = Some request_cancelled
   \<and> service_requests db_cancelled ! 0 = request_cancelled
   \<and> terminal (status request_cancelled)
   \<and> service_requests
        (run [(env0, Accept (Some ''m1'') ''r1''), (env0, Arrived (Some ''m1'') ''r1''),
              (env0, CompleteMechanic (Some ''m1'') ''r1''),
              (env0, CompleteCustomer (Some ''c1'') ''r1'' (pay (JNum 50) (JNum 100) (JNum 5))),
              (env0, Cancel (Some ''c1'') ''r1'')] db_cancelled) ! 0
       = request_cancelled
   \<and> rejected (env0, Accept (Some ''m1'') ''r1'') db_cancelled
   \<and> step (env0, Accept (Some ''m1'') ''r1'') db_cancelled = db_cancelled
   \<and> cancelServiceRequest env0 (Some ''c1'') ''r1'' db_cancelled
       = (Inl (CustomError ''Cannot cancel request in current status'' 400), db_cancelled)
   \<and> acceptServiceRequest env0 (Some ''m1'') ''r1'' db_cancelled
       = (Inl (CustomError ''Service request is not pending'' 400), db_cancelled)"
proof -
  let ?cs = "[(env0, Accept (Some ''m1'') ''r1''), (env0, Arrived (Some ''m1'') ''r1''),
              (env0, CompleteMechanic (Some ''m1'') ''r1''),
              (env0, CompleteCustomer (Some ''c1'') ''r1'' (pay (JNum 50) (JNum 100) (JNum 5))),
              (env0, Cancel (Some ''c1'') ''r1'')]"
  have rows: "service_requests db_cancelled = [request_cancelled]"
    by code_simp
  have s: "single (request_by_id ''r1'' db_cancelled) = Some request_cancelled"
    by code_simp
  have f: "status request_cancelled = cancelled" "customer_id request_cancelled = ''c1''"
    "mechanic_id request_cancelled = ''m1''"
    by (simp_all add: request_cancelled_def request0_def)
  have nf: "\<not> fails env0 SelectRequest"
    by (simp add: env0_def)
  have "select_single env0 SelectProfile (profile_by_user ''m1'' db_cancelled) = Some profile0"
    by code_simp
  moreover have "is_available profile0"
    by (simp add: profile0_def)
  ultimately
  have p: "\<exists>p. select_single env0 SelectProfile (profile_by_user ''m1'' db_cancelled) = Some p
             \<and> is_available p"
    by blast
  note t = terminal_status_is_final [of 0 db_cancelled ?cs "Accept (Some ''m1'') ''r1''" "''r1''"
      request_cancelled env0 "pay (JNum 50) (JNum 100) (JNum 5)"]
  from t rows s f nf p show ?thesis
    by (simp add: terminal_def)
qed

section \<open>Withdrawal\<close>



section \<open>Customer confirmation and prices\<close>



section \<open>Presence tests by truthiness\<close>

text \<open>
  C10 (as amended). The customer's completion call rejects a material or labour cost sent
  as the number 0 with the 400 error ``Missing required fields'' and leaves the store as it
  was, because presence is tested by truthiness. The text \<^verbatim>\<open>"0"\<close> is a non-empty string,
  hence truthy: it passes the presence test and parses to the cost 0.
\<close>

theorem zero_cost_number_rejected:
  assumes "\<not> missing user"
  shows "(body_material_cost b = JNum 0 \<or> body_labor_cost b = JNum 0 \<longrightarrow>
           completeServiceRequest e user rid b d
             = (Inl (CustomError ''Missing required fields'' 400), d))
         \<and> truthy (JStr ''0'') \<and> parseFloat (JStr ''0'') = Some 0"
proof -
  obtain u where u: "user = Some u" "u \<noteq> []"
    using assms by (cases user) (auto simp: missing_def)
  have "completeServiceRequest e user rid b d
          = (Inl (CustomError ''Missing required fields'' 400), d)"
    if "body_material_cost b = JNum 0 \<or> body_labor_cost b = JNum 0"
    using that u by (auto simp: completeServiceRequest_def)
  moreover have "parseFloat (JStr ''0'') = Some 0"
    by (simp add: parse_float_str_def str_decimal_def is_space_def is_digit_def
        digits_val_def digit_val_def exponent_part_def)
  ultimately show ?thesis by simp
qed

theorem zero_cost_number_rejected_witness:
  "\<not> missing (Some ''c1'')
   \<and> completeServiceRequest env0 (Some ''c1'') ''r1'' (pay (JNum 50) (JNum 0) (JNum 5))
         (run to_in_progress db0)
       = (Inl (CustomError ''Missing required fields'' 400), run to_in_progress db0)"
proof -
  have h: "\<not> missing (Some ''c1'')" by (simp add: missing_def)
  have "body_labor_cost (pay (JNum 50) (JNum 0) (JNum 5)) = JNum 0" by (simp add: pay_def)
  with zero_cost_number_rejected [OF h, of "pay (JNum 50) (JNum 0) (JNum 5)" env0 "''r1''"
      "run to_in_progress db0"] h
  show ?thesis by blast
qed

text \<open>
  The claim as first stated also has the text \<^verbatim>\<open>"0"\<close> rejected, so that no zero-cost job
  completes through the customer's call. On the sample deployment, once the provider has
  confirmed, the customer's call with both costs sent as \<^verbatim>\<open>"0"\<close> succeeds and completes the
  job at labour cost 0.
\<close>

theorem zero_cost_text_counterexample:
  "fst (completeServiceRequest env0 (Some ''c1'') ''r1'' (pay (JStr ''0'') (JStr ''0'') (JNum 5))
          (run (to_in_progress @ [(env0, CompleteMechanic (Some ''m1'') ''r1'')]) db0))
     \<noteq> Inl (CustomError ''Missing required fields'' 400)
   \<and> map status (service_requests
        (run (to_in_progress @ [(env0, CompleteMechanic (Some ''m1'') ''r1''),
               (env0, CompleteCustomer (Some ''c1'') ''r1'' (pay (JStr ''0'') (JStr ''0'') (JNum 5)))])
           db0)) = [completed]
   \<and> map labor_cost (service_requests
        (run (to_in_progress @ [(env0, CompleteMechanic (Some ''m1'') ''r1''),
               (env0, CompleteCustomer (Some ''c1'') ''r1'' (pay (JStr ''0'') (JStr ''0'') (JNum 5)))])
           db0)) = [Some 0]"
  by code_simp

end
